theory Spec2Isabelle
  imports Main "HOL-Library.Word"
begin

unbundle bit_operations_syntax

section \<open>Barnacle boot loader: data model\<close>

text \<open>
  The identity engine lives in \<^verbatim>\<open>Barnacle.c\<close>. Its records are declared in
  \<^verbatim>\<open>Barnacle.h\<close>; the fields below are the ones \<^verbatim>\<open>Barnacle.c\<close> reads and writes.
  Key material, digests and certificate bags are byte arrays; the magic words, versions,
  flags and sizes are 32-bit words; a certificate-table entry holds two 16-bit words (the
  source casts the length with \<^verbatim>\<open>(uint16_t)\<close> when it stores one), and a certificate
  table maps the positions of its enumeration to entries. The cursors are 32-bit words
  too; they are kept as natural numbers below \<open>2 ^ 32\<close>, and every sum the source forms
  with one (\<^verbatim>\<open>cursor + size\<close>, \<^verbatim>\<open>cursor += size\<close>, \<^verbatim>\<open>cursor++\<close>) is written with its
  wrap-around, \<open>mod 2 ^ 32\<close>.

  A digest field holds \<^verbatim>\<open>SHA256_DIGEST_LENGTH\<close> bytes, so that \<^verbatim>\<open>memcmp\<close> over that length
  is equality of the two arrays. \<open>AgentCode\<close> holds the bytes from \<^verbatim>\<open>AGENTCODE\<close> on; a
  measured size beyond them covers the bytes there are.
\<close>

type_synonym byte = "8 word"
type_synonym u16 = "16 word"
type_synonym u32 = "32 word"
type_synonym bytes = "byte list"

record BARNACLE_CERT_INDEX =
  ci_start :: u16
  ci_size :: u16

record BARNACLE_IDENTITY_PRIVATE =
  id_magic :: u32
  id_pubKey :: bytes
  id_privKey :: bytes

record BARNACLE_ISSUED_PUBLIC =
  ic_magic :: u32
  ic_flags :: u32
  ic_codeAuthPubKey :: bytes
  ic_certTable :: "nat \<Rightarrow> BARNACLE_CERT_INDEX"
  ic_cursor :: nat
  ic_certBag :: bytes

record BARNACLE_CACHED_DATA =
  fc_magic :: u32
  fc_lastIssued :: u32
  fc_lastVersion :: u32
  fc_agentHdrDigest :: bytes
  fc_compoundPubKey :: bytes
  fc_compoundPrivKey :: bytes
  fc_compoundCertSize :: u32
  fc_cert :: bytes

record BARNACLE_CERTSTORE =
  cs_magic :: u32
  cs_certTable :: "nat \<Rightarrow> BARNACLE_CERT_INDEX"
  cs_cursor :: nat
  cs_certBag :: bytes

record BARNACLE_AGENT_HDR =
  hdr_magic :: u32
  hdr_version :: u32
  hdr_size :: u32
  agent_name :: string
  agent_version :: u32
  agent_issued :: u32
  agent_size :: u32
  agent_digest :: bytes
  signature_r :: bytes
  signature_s :: bytes

record RIOT_ECC_SIGNATURE =
  sig_r :: bytes
  sig_s :: bytes

record RIOT_X509_TBS_DATA =
  SerialNum :: bytes
  IssuerCommon :: string
  IssuerOrg :: string
  IssuerCountry :: string
  ValidFrom :: string
  ValidTo :: string
  SubjectCommon :: string
  SubjectOrg :: "string option"
  SubjectCountry :: "string option"

text \<open>
  One call of \<^verbatim>\<open>BarnacleFlashPages\<close>: the region it targets and the record it
  programs there.
\<close>

datatype flash_write =
  WriteFwDeviceId BARNACLE_IDENTITY_PRIVATE
| WriteIssuedCerts BARNACLE_ISSUED_PUBLIC
| WriteFwCache BARNACLE_CACHED_DATA

text \<open>What the boot loader prints: \<^verbatim>\<open>swoPrint\<close> lines (without the trailing CR LF) and
  the two roll-back lines sent to \<^verbatim>\<open>stderr\<close>, with the numbers they compare.\<close>

datatype message =
  swoPrint string
| RollbackVersion u32 u32
| RollbackIssuance u32 u32

text \<open>
  Everything \<^verbatim>\<open>Barnacle.c\<close> takes from elsewhere: the constants, addresses and array
  sizes fixed by \<^verbatim>\<open>Barnacle.h\<close> and the linker script, the cryptographic primitives,
  the certificate builder of the cyrep library, the random number generator and the
  flash driver. A primitive that can report failure returns \<open>None\<close> for it.
\<close>

record platform =
  BARNACLEMAGIC :: u32
  BARNACLEVERSION :: u32
  BARNACLE_ISSUEDFLAG_PROVISIONIED :: u32
  BARNACLE_ISSUEDFLAG_AUTHENTICATED_BOOT :: u32
  BARNACLE_ISSUEDFLAG_WRITELOCK :: u32
  addr_AgentHdr :: u32
  addr_AGENTCODE :: u32
  addr_IssuedCerts :: u32
  sizeof_CertStore_certBag :: nat
  sizeof_IssuedCerts_certBag :: nat
  sizeof_FwCache_cert :: nat
  sizeof_codeAuthPubKey :: nat
  BarnacleGetRandom :: "nat \<Rightarrow> bytes"
  BarnacleNullCheck :: "bytes \<Rightarrow> bool"
  BarnacleFlashPages :: "flash_write \<Rightarrow> bool"
  BigIntToBigVal :: "bytes \<Rightarrow> bytes"
  RiotCrypt_Hash :: "bytes \<Rightarrow> bytes option"
  RiotCrypt_DeriveEccKey :: "bytes \<Rightarrow> string \<Rightarrow> (bytes \<times> bytes) option"
  RiotCrypt_Kdf :: "bytes \<Rightarrow> string \<Rightarrow> bytes option"
  RiotCrypt_Sign :: "bytes \<Rightarrow> bytes \<Rightarrow> RIOT_ECC_SIGNATURE option"
  RiotCrypt_VerifyDigest :: "bytes \<Rightarrow> RIOT_ECC_SIGNATURE \<Rightarrow> bytes \<Rightarrow> bool"
  cyrep_X509GetDeviceCertTBS :: "RIOT_X509_TBS_DATA \<Rightarrow> bytes \<Rightarrow> bytes \<Rightarrow> nat \<Rightarrow> bytes option"
  cyrep_X509MakeDeviceCert :: "bytes \<Rightarrow> RIOT_ECC_SIGNATURE \<Rightarrow> bytes option"
  cyrep_X509GetAliasCertTBS ::
    "RIOT_X509_TBS_DATA \<Rightarrow> bytes \<Rightarrow> bytes \<Rightarrow> bytes \<Rightarrow> nat \<Rightarrow> bytes option"
  cyrep_X509MakeAliasCert :: "bytes \<Rightarrow> RIOT_ECC_SIGNATURE \<Rightarrow> bytes option"
  DERtoPEM :: "bytes \<Rightarrow> nat \<Rightarrow> bytes option"

text \<open>
  The machine state: the linker-placed objects of \<^verbatim>\<open>Barnacle.c\<close>, and three ghost
  fields that record effects: every \<^verbatim>\<open>BarnacleFlashPages\<close> call with its outcome, every
  printed line, and, for every store that reaches past the end of \<^verbatim>\<open>CertStore.certBag\<close>
  (a terminator or a \<^verbatim>\<open>memcpy\<close>), the first offset it touches there.
\<close>

record state =
  AgentHdr :: BARNACLE_AGENT_HDR
  AgentCode :: bytes
  CompoundId :: BARNACLE_IDENTITY_PRIVATE
  CertStore :: BARNACLE_CERTSTORE
  IssuedCerts :: BARNACLE_ISSUED_PUBLIC
  FwDeviceId :: BARNACLE_IDENTITY_PRIVATE
  FwCache :: BARNACLE_CACHED_DATA
  flash_log :: "(flash_write \<times> bool) list"
  console :: "message list"
  certBag_overrun :: "nat list"

definition SHA256_DIGEST_LENGTH :: nat where
  "SHA256_DIGEST_LENGTH = 32"

definition RIOT_LABEL_IDENTITY :: string where
  "RIOT_LABEL_IDENTITY = ''Identity''"

definition RIOT_LABEL_SERIAL :: string where
  "RIOT_LABEL_SERIAL = ''Serial''"

text \<open>Modelled from the spec: \<^verbatim>\<open>RIOT_X509_SNUM_LEN\<close>, the length of
  \<^verbatim>\<open>RIOT_X509_TBS_DATA.SerialNum\<close>, is declared in a header that is not part of the
  sources at hand; the specification gives a 20-byte serial.\<close>

definition RIOT_X509_SNUM_LEN :: nat where
  "RIOT_X509_SNUM_LEN = 20"

text \<open>Modelled from the spec: the positions in the two certificate tables, in the order
  the specification lists them (\<^verbatim>\<open>IssuedCerts\<close>: ROOT, INTERMEDIATE, DEVICE;
  \<^verbatim>\<open>CertStore\<close>: ROOT, DEVICE, LOADER, AGENT). The enumerations are in \<^verbatim>\<open>Barnacle.h\<close>.\<close>

definition BARNACLE_ISSUED_ROOT :: nat where "BARNACLE_ISSUED_ROOT = 0"
definition BARNACLE_ISSUED_DEVICE :: nat where "BARNACLE_ISSUED_DEVICE = 2"
definition BARNACLE_CERTSTORE_ROOT :: nat where "BARNACLE_CERTSTORE_ROOT = 0"
definition BARNACLE_CERTSTORE_DEVICE :: nat where "BARNACLE_CERTSTORE_DEVICE = 1"
definition BARNACLE_CERTSTORE_LOADER :: nat where "BARNACLE_CERTSTORE_LOADER = 2"

definition zero_index :: BARNACLE_CERT_INDEX where
  "zero_index = \<lparr>ci_start = 0, ci_size = 0\<rparr>"

text \<open>A local array filled by a primitive: the array has \<open>n\<close> bytes whatever the
  primitive returned (\<^verbatim>\<open>uint8_t digest[SHA256_DIGEST_LENGTH]\<close>).\<close>

definition array_of :: "nat \<Rightarrow> bytes \<Rightarrow> bytes" where
  "array_of n xs = take n (xs @ replicate n 0)"

text \<open>\<^verbatim>\<open>memcpy(dst + at, src, n)\<close> into an array, for a range inside it (an empty
  range leaves the array as it is, wherever it starts).\<close>

definition memcpy_at :: "bytes \<Rightarrow> nat \<Rightarrow> bytes \<Rightarrow> bytes" where
  "memcpy_at dst at src = take at dst @ src @ drop (at + length src) dst"

text \<open>Reading \<open>n\<close> bytes at offset \<open>start\<close> of a flash array. Bytes past the end of the
  array belong to whatever the linker placed next; they are read as erased flash.\<close>

definition flash_read :: "bytes \<Rightarrow> nat \<Rightarrow> nat \<Rightarrow> bytes" where
  "flash_read bag start n =
     map (\<lambda>i. if i < length bag then bag ! i else 0xFF) [start ..< start + n]"

definition say :: "string \<Rightarrow> state \<Rightarrow> state" where
  "say m s = s\<lparr>console := console s @ [swoPrint m]\<rparr>"

section \<open>The DFU string\<close>

text \<open>\<^verbatim>\<open>sprintf\<close> conversions used by \<^verbatim>\<open>BarnacleGetDfuStr\<close>: \<^verbatim>\<open>%08x\<close> of a 32-bit
  value (eight lower-case hexadecimal digits) and \<^verbatim>\<open>%02u\<close> (decimal, padded with zeros
  to two digits).\<close>

definition hexdigit :: "nat \<Rightarrow> char" where
  "hexdigit n = ''0123456789abcdef'' ! (n mod 16)"

definition fmt_08x :: "u32 \<Rightarrow> string" where
  "fmt_08x w = map (\<lambda>i. hexdigit (unat (drop_bit (4 * i) w AND 0xF))) [7, 6, 5, 4, 3, 2, 1, 0]"

definition decdigit :: "nat \<Rightarrow> char" where
  "decdigit n = ''0123456789'' ! (n mod 10)"

fun decimal :: "nat \<Rightarrow> string" where
  "decimal n = (if n < 10 then [decdigit n] else decimal (n div 10) @ [decdigit n])"

declare decimal.simps [simp del]

definition fmt_02u :: "nat \<Rightarrow> string" where
  "fmt_02u n = (let d = decimal n in replicate (2 - length d) (CHR ''0'') @ d)"

text \<open>\<^verbatim>\<open>char dfuString[128]\<close>: a \<^verbatim>\<open>sprintf\<close> at the cursor stores the text and its
  terminator. \<open>None\<close> stands for a store past the end of the array.\<close>

definition sizeof_dfuString :: nat where
  "sizeof_dfuString = 128"

definition sprintf_dfu :: "string \<Rightarrow> string \<Rightarrow> string option" where
  "sprintf_dfu written piece =
     (if length written + length piece + 1 \<le> sizeof_dfuString
      then Some (written @ piece) else None)"

text \<open>The \<^verbatim>\<open>while(agentArea > 0)\<close> loop; \<^verbatim>\<open>agentArea\<close> is an \<^verbatim>\<open>int32_t\<close>.\<close>

function dfu_loop :: "int \<Rightarrow> string \<Rightarrow> string option" where
  "dfu_loop agentArea written =
     (if agentArea > 0 then
        (let iteration = min agentArea 99 in
         case sprintf_dfu written (fmt_02u (nat iteration) @ ''*004Kf,'') of
           None \<Rightarrow> None
         | Some written' \<Rightarrow> dfu_loop (agentArea - iteration) written')
      else Some written)"
  by pat_completeness auto
termination
  by (relation "measure (\<lambda>(a, w). nat a)") auto

declare dfu_loop.simps [simp del]

definition BarnacleGetDfuStr :: "platform \<Rightarrow> state \<Rightarrow> string option" where
  "BarnacleGetDfuStr plat s =
     (let agentArea = sint ((addr_IssuedCerts plat - addr_AgentHdr plat) div 4096) in
      case sprintf_dfu [] (''@Barnacle /0x'' @ fmt_08x (addr_AgentHdr plat) @ ''/'') of
        None \<Rightarrow> None
      | Some c1 \<Rightarrow>
          (case dfu_loop agentArea c1 of
             None \<Rightarrow> None
           | Some c2 \<Rightarrow>
               sprintf_dfu c2 (''01*04K'' @
                 [if ic_flags (IssuedCerts s) AND BARNACLE_ISSUEDFLAG_WRITELOCK plat \<noteq> 0
                  then CHR ''a'' else CHR ''g''])))"

section \<open>Flash\<close>

text \<open>Modelled from the spec: \<^verbatim>\<open>BarnacleFlashPages(dst, src, n)\<close> is not part of the
  sources at hand. It erases the pages of the target region and programs them from
  \<open>src\<close>, and returns false on a hardware error. A successful call replaces the region;
  the regions are disjoint. What a failed call leaves in the region is not specified: the
  region is kept, and the call is logged as failed.\<close>

definition flash :: "platform \<Rightarrow> flash_write \<Rightarrow> state \<Rightarrow> bool \<times> state" where
  "flash plat w s =
     (let ok = BarnacleFlashPages plat w;
          s' = s\<lparr>flash_log := flash_log s @ [(w, ok)]\<rparr>
      in if ok then
           (True, case w of
                    WriteFwDeviceId x \<Rightarrow> s'\<lparr>FwDeviceId := x\<rparr>
                  | WriteIssuedCerts x \<Rightarrow> s'\<lparr>IssuedCerts := x\<rparr>
                  | WriteFwCache x \<Rightarrow> s'\<lparr>FwCache := x\<rparr>)
         else (False, s'))"

text \<open>Modelled from the spec: \<^verbatim>\<open>DERtoPEM(ctx, type, out, &length)\<close> is not part of the
  sources at hand. The caller passes the capacity; the routine reports the bytes produced
  and fails with overflow when they do not fit.\<close>

definition DERtoPEM_into :: "platform \<Rightarrow> bytes \<Rightarrow> nat \<Rightarrow> bytes option" where
  "DERtoPEM_into plat der capacity =
     (case DERtoPEM plat der capacity of
        None \<Rightarrow> None
      | Some pem \<Rightarrow> if length pem \<le> capacity then Some pem else None)"

section \<open>Certificate serial numbers\<close>

text \<open>Lines 118 to 120 and 299 to 301 of \<^verbatim>\<open>Barnacle.c\<close>: the first byte of the KDF
  output is masked and set, then the first \<^verbatim>\<open>sizeof(SerialNum)\<close> bytes are copied.\<close>

definition serial_of_digest :: "bytes \<Rightarrow> bytes" where
  "serial_of_digest digest =
     (let d1 = digest[0 := (digest ! 0) AND 0x7F];
          d2 = d1[0 := (d1 ! 0) OR 0x01]
      in take RIOT_X509_SNUM_LEN d2)"

definition device_x509TBSData :: "bytes \<Rightarrow> RIOT_X509_TBS_DATA" where
  "device_x509TBSData digest =
     \<lparr>SerialNum = serial_of_digest digest,
      IssuerCommon = ''CyReP Device'', IssuerOrg = ''Microsoft'', IssuerCountry = ''US'',
      ValidFrom = ''170101000000Z'', ValidTo = ''370101000000Z'',
      SubjectCommon = ''CyReP Device'', SubjectOrg = Some ''Microsoft'',
      SubjectCountry = Some ''US''\<rparr>"

definition alias_x509TBSData :: "string \<Rightarrow> bytes \<Rightarrow> RIOT_X509_TBS_DATA" where
  "alias_x509TBSData name digest =
     \<lparr>SerialNum = serial_of_digest digest,
      IssuerCommon = ''CyReP Device'', IssuerOrg = ''Microsoft'', IssuerCountry = ''US'',
      ValidFrom = ''170101000000Z'', ValidTo = ''370101000000Z'',
      SubjectCommon = name, SubjectOrg = None, SubjectCountry = None\<rparr>"

section \<open>BarnacleInitialProvision\<close>

text \<open>Lines 58 to 84: the platform identity. The result is \<^verbatim>\<open>result\<close>,
  \<^verbatim>\<open>generateCerts\<close> and the state.\<close>

definition BarnacleInitialProvision_identity :: "platform \<Rightarrow> state \<Rightarrow> bool \<times> bool \<times> state" where
  "BarnacleInitialProvision_identity plat s =
     (if id_magic (FwDeviceId s) \<noteq> BARNACLEMAGIC plat then
        (let cdi = array_of SHA256_DIGEST_LENGTH (BarnacleGetRandom plat SHA256_DIGEST_LENGTH)
         in case RiotCrypt_DeriveEccKey plat cdi RIOT_LABEL_IDENTITY of
              None \<Rightarrow> (False, False, say ''ERROR: RiotCrypt_DeriveEccKey failed.'' s)
            | Some (pub, priv) \<Rightarrow>
                (let newId = \<lparr>id_magic = BARNACLEMAGIC plat, id_pubKey = pub, id_privKey = priv\<rparr>
                 in case flash plat (WriteFwDeviceId newId) s of
                      (False, s1) \<Rightarrow> (False, False, say ''ERROR: BarnacleFlashPages failed.'' s1)
                    | (True, s1) \<Rightarrow> (True, True, s1)))
      else (True, False, s))"

text \<open>Lines 90 to 163: the self-signed device certificate. \<^verbatim>\<open>newCertBag\<close> starts
  zeroed, all but the last byte of its bag are set to \<open>0xFF\<close>, and the device entry is the
  last one of its table (\<^verbatim>\<open>certTable[NUMELEM(certTable) - 1]\<close>). The terminator after the
  PEM is stored with a list update, which stores nothing when the PEM fills the bag to its
  last byte.\<close>

definition fresh_certBag :: "platform \<Rightarrow> BARNACLE_ISSUED_PUBLIC" where
  "fresh_certBag plat =
     (let n = sizeof_IssuedCerts_certBag plat in
      \<lparr>ic_magic = BARNACLEMAGIC plat, ic_flags = 0,
       ic_codeAuthPubKey = replicate (sizeof_codeAuthPubKey plat) 0,
       ic_certTable = (\<lambda>i. zero_index), ic_cursor = 0,
       ic_certBag = replicate (n - 1) 0xFF @ replicate (n - (n - 1)) 0\<rparr>)"

definition store_pem :: "BARNACLE_ISSUED_PUBLIC \<Rightarrow> bytes \<Rightarrow> BARNACLE_ISSUED_PUBLIC" where
  "store_pem bag pem =
     (let cursor = ic_cursor bag;
          len = length pem;
          written = memcpy_at (ic_certBag bag) cursor pem;
          cursor' = (cursor + len) mod 2 ^ 32
      in bag\<lparr>ic_certTable := (ic_certTable bag)
                 (BARNACLE_ISSUED_DEVICE := \<lparr>ci_start = of_nat cursor, ci_size = of_nat len\<rparr>),
              ic_certBag := written[cursor' := 0],
              ic_cursor := (cursor' + 1) mod 2 ^ 32\<rparr>)"

definition BarnacleInitialProvision_certs :: "platform \<Rightarrow> state \<Rightarrow> bool \<times> state" where
  "BarnacleInitialProvision_certs plat s =
     (let newCertBag = fresh_certBag plat in
      case RiotCrypt_Kdf plat (id_pubKey (FwDeviceId s)) RIOT_LABEL_SERIAL of
        None \<Rightarrow> (False, say ''ERROR: RiotCrypt_Kdf failed.'' s)
      | Some k \<Rightarrow>
      (let x509TBSData = device_x509TBSData (array_of SHA256_DIGEST_LENGTH k) in
       case cyrep_X509GetDeviceCertTBS plat x509TBSData (id_pubKey (FwDeviceId s))
              (id_pubKey (FwDeviceId s)) 1 of
         None \<Rightarrow> (False, say ''ERROR: X509GetDeviceCertTBS failed.'' s)
       | Some tbs \<Rightarrow>
       (case RiotCrypt_Sign plat tbs (id_privKey (FwDeviceId s)) of
          None \<Rightarrow> (False, say ''ERROR: RiotCrypt_Sign failed.'' s)
        | Some tbsSig \<Rightarrow>
        (case cyrep_X509MakeDeviceCert plat tbs tbsSig of
           None \<Rightarrow> (False, say ''ERROR: X509MakeDeviceCert failed.'' s)
         | Some cert \<Rightarrow>
         (case DERtoPEM_into plat cert
                 (sizeof_IssuedCerts_certBag plat - ic_cursor newCertBag) of
            None \<Rightarrow> (False, say ''ERROR: DERtoPEM failed.'' s)
          | Some pem \<Rightarrow>
          (case flash plat (WriteIssuedCerts (store_pem newCertBag pem)) s of
             (False, s1) \<Rightarrow> (False, say ''ERROR: BarnacleFlashPages failed.'' s1)
           | (True, s1) \<Rightarrow> (True, s1)))))))"

definition BarnacleInitialProvision :: "platform \<Rightarrow> state \<Rightarrow> bool \<times> state" where
  "BarnacleInitialProvision plat s =
     (case BarnacleInitialProvision_identity plat s of
        (False, generateCerts, s1) \<Rightarrow> (False, s1)
      | (True, generateCerts, s1) \<Rightarrow>
          if generateCerts \<or> ic_magic (IssuedCerts s1) \<noteq> BARNACLEMAGIC plat
          then BarnacleInitialProvision_certs plat s1
          else (True, s1))"

section \<open>BarnacleVerifyAgent\<close>

text \<open>Modelled from the spec: the bytes of \<^verbatim>\<open>AgentHdr.s.sign\<close>, the part of the header
  that is hashed. The structure is declared in \<^verbatim>\<open>Barnacle.h\<close>; the fields are laid out in
  the order of the specification, \<open>hdr{magic, version, size}\<close> then
  \<open>agent{name, version, issued, size, digest}\<close>, words in little-endian order.\<close>

definition le32 :: "u32 \<Rightarrow> bytes" where
  "le32 w = map (\<lambda>i. ucast (drop_bit (8 * i) w)) [0, 1, 2, 3]"

definition sign_bytes :: "BARNACLE_AGENT_HDR \<Rightarrow> bytes" where
  "sign_bytes h =
     le32 (hdr_magic h) @ le32 (hdr_version h) @ le32 (hdr_size h) @
     map of_char (agent_name h) @ le32 (agent_version h) @ le32 (agent_issued h) @
     le32 (agent_size h) @ agent_digest h"

text \<open>The condition of line 217: authenticated boot is provisioned and enabled, and a
  code-authority key is present.\<close>

definition authenticated_boot :: "platform \<Rightarrow> state \<Rightarrow> bool" where
  "authenticated_boot plat s \<longleftrightarrow>
     ic_flags (IssuedCerts s) AND BARNACLE_ISSUEDFLAG_PROVISIONIED plat \<noteq> 0 \<and>
     ic_flags (IssuedCerts s) AND BARNACLE_ISSUEDFLAG_AUTHENTICATED_BOOT plat \<noteq> 0 \<and>
     \<not> BarnacleNullCheck plat (ic_codeAuthPubKey (IssuedCerts s))"

text \<open>Lines 177 to 232: the header sniff, the start address, the code digest, the header
  digest and the signature. The result is the header digest left in \<^verbatim>\<open>digest\<close>, or the
  line printed before the function goes to \<^verbatim>\<open>Cleanup\<close> with \<^verbatim>\<open>result\<close> false. The code
  digest is taken over \<^verbatim>\<open>AgentHdr.s.sign.agent.size\<close> bytes from \<^verbatim>\<open>AGENTCODE\<close>.\<close>

definition BarnacleVerifyAgent_checks :: "platform \<Rightarrow> state \<Rightarrow> string + bytes" where
  "BarnacleVerifyAgent_checks plat s =
     (let hdr = AgentHdr s in
      if \<not> (hdr_magic hdr = BARNACLEMAGIC plat \<and> hdr_version hdr \<le> BARNACLEVERSION plat)
      then Inl ''ERROR: Invalid agent present.''
      else if addr_AGENTCODE plat \<noteq> addr_AgentHdr plat + hdr_size hdr
      then Inl ''ERROR: Unexpected agent start address.''
      else
        (case RiotCrypt_Hash plat (take (unat (agent_size hdr)) (AgentCode s)) of
           None \<Rightarrow> Inl ''ERROR: RiotCrypt_Hash failed.''
         | Some h1 \<Rightarrow>
             if array_of SHA256_DIGEST_LENGTH h1 \<noteq> agent_digest hdr
             then Inl ''ERROR: Agent digest mismatch.''
             else
               (case RiotCrypt_Hash plat (sign_bytes hdr) of
                  None \<Rightarrow> Inl ''ERROR: RiotCrypt_Hash failed.''
                | Some h2 \<Rightarrow>
                    (let digest = array_of SHA256_DIGEST_LENGTH h2 in
                     if authenticated_boot plat s then
                       (let sig = \<lparr>sig_r = BigIntToBigVal plat (signature_r hdr),
                                   sig_s = BigIntToBigVal plat (signature_s hdr)\<rparr>
                        in if \<not> RiotCrypt_VerifyDigest plat digest sig
                                   (ic_codeAuthPubKey (IssuedCerts s))
                           then Inl ''ERROR: RiotCrypt_Verify failed.''
                           else Inr digest)
                     else Inr digest))))"

text \<open>Lines 249 to 267: the roll-back detection. Both branches only print; the two
  assignments \<^verbatim>\<open>result = false; goto Cleanup;\<close> are commented out in the source.\<close>

definition rollback_detection :: "platform \<Rightarrow> state \<Rightarrow> state" where
  "rollback_detection plat s =
     (if fc_magic (FwCache s) = BARNACLEMAGIC plat then
        (let s1 = (if fc_lastVersion (FwCache s) \<ge> agent_version (AgentHdr s)
                   then s\<lparr>console := console s @
                          [RollbackVersion (fc_lastVersion (FwCache s)) (agent_version (AgentHdr s))]\<rparr>
                   else s)
         in if fc_lastIssued (FwCache s1) \<ge> agent_issued (AgentHdr s1)
            then s1\<lparr>console := console s1 @
                   [RollbackIssuance (fc_lastIssued (FwCache s1)) (agent_issued (AgentHdr s1))]\<rparr>
            else s1)
      else s)"

text \<open>Lines 269 to 339: the new cache record, or the line printed before
  \<^verbatim>\<open>goto Cleanup\<close>. \<^verbatim>\<open>digest\<close> holds the header digest on entry and is overwritten by the
  KDF. The terminator after the PEM is stored with a list update, which stores nothing
  when the PEM fills \<^verbatim>\<open>cache.cert\<close>.\<close>

definition new_cache :: "platform \<Rightarrow> bytes \<Rightarrow> state \<Rightarrow> string + BARNACLE_CACHED_DATA" where
  "new_cache plat digest s =
     (case RiotCrypt_DeriveEccKey plat digest RIOT_LABEL_IDENTITY of
        None \<Rightarrow> Inl ''ERROR: RiotCrypt_DeriveEccKey failed.''
      | Some (compoundPubKey, compoundPrivKey) \<Rightarrow>
      (case RiotCrypt_Kdf plat compoundPubKey RIOT_LABEL_SERIAL of
         None \<Rightarrow> Inl ''ERROR: RiotCrypt_Kdf failed.''
       | Some k \<Rightarrow>
       (let x509TBSData = alias_x509TBSData (agent_name (AgentHdr s))
                            (array_of SHA256_DIGEST_LENGTH k)
        in case cyrep_X509GetAliasCertTBS plat x509TBSData compoundPubKey
                  (id_pubKey (FwDeviceId s)) (agent_digest (AgentHdr s)) 1 of
          None \<Rightarrow> Inl ''ERROR: X509GetAliasCertTBS failed.''
        | Some tbs \<Rightarrow>
        (case RiotCrypt_Sign plat tbs (id_privKey (FwDeviceId s)) of
           None \<Rightarrow> Inl ''ERROR: RiotCrypt_Sign failed.''
         | Some tbsSig \<Rightarrow>
         (case cyrep_X509MakeAliasCert plat tbs tbsSig of
            None \<Rightarrow> Inl ''ERROR: X509MakeAliasCert failed.''
          | Some cert \<Rightarrow>
          (case DERtoPEM_into plat cert (sizeof_FwCache_cert plat) of
             None \<Rightarrow> Inl ''ERROR: DERtoPEM failed.''
           | Some pem \<Rightarrow>
               Inr \<lparr>fc_magic = BARNACLEMAGIC plat,
                    fc_lastIssued = agent_issued (AgentHdr s),
                    fc_lastVersion = agent_version (AgentHdr s),
                    fc_agentHdrDigest = digest,
                    fc_compoundPubKey = compoundPubKey,
                    fc_compoundPrivKey = compoundPrivKey,
                    fc_compoundCertSize = of_nat (length pem),
                    fc_cert = (memcpy_at (replicate (sizeof_FwCache_cert plat) 0xFF) 0 pem)
                                [length pem := 0]\<rparr>))))))"

text \<open>Lines 237 to 347: the block entered on the first launch and after an update.\<close>

definition BarnacleVerifyAgent_refresh :: "platform \<Rightarrow> bytes \<Rightarrow> state \<Rightarrow> bool \<times> state" where
  "BarnacleVerifyAgent_refresh plat digest s =
     (let s1 = rollback_detection plat s in
      case new_cache plat digest s1 of
        Inl err \<Rightarrow> (False, say err s1)
      | Inr cache \<Rightarrow>
          (case flash plat (WriteFwCache cache) s1 of
             (False, s2) \<Rightarrow> (False, say ''ERROR: BarnacleFlashPages failed.'' s2)
           | (True, s2) \<Rightarrow> (True, s2)))"

text \<open>The handoff (lines 350 to 400) rebuilds \<^verbatim>\<open>CertStore\<close> from \<^verbatim>\<open>IssuedCerts\<close> and
  \<^verbatim>\<open>FwCache\<close>. Its steps work on the store under construction, paired with the record of
  the stores that reach past the end of \<^verbatim>\<open>CertStore.certBag\<close>.

  \<^verbatim>\<open>CertStore.certBag[CertStore.info.cursor++] = '\0'\<close>: a cursor at or above the size of
  the bag addresses a byte after the array, and that store is recorded. The increment is
  one of a \<^verbatim>\<open>uint32_t\<close>.\<close>

definition certBag_terminate ::
    "platform \<Rightarrow> BARNACLE_CERTSTORE \<times> nat list \<Rightarrow> BARNACLE_CERTSTORE \<times> nat list" where
  "certBag_terminate plat st =
     (let cs = fst st; c = cs_cursor cs in
      if c < sizeof_CertStore_certBag plat
      then (cs\<lparr>cs_certBag := (cs_certBag cs)[c := 0], cs_cursor := (c + 1) mod 2 ^ 32\<rparr>, snd st)
      else (cs\<lparr>cs_cursor := (c + 1) mod 2 ^ 32\<rparr>, snd st @ [c]))"

text \<open>One append of \<open>n\<close> bytes found at \<open>start\<close> in the array \<open>src\<close>: \<^verbatim>\<open>memcpy\<close> at the
  cursor, the table entry (two \<^verbatim>\<open>uint16_t\<close>), the cursor advanced by the size, the
  terminator. \<^verbatim>\<open>memcpy\<close> stores \<open>n\<close> bytes from the cursor on: the bytes that fall inside
  the bag are stored there, and a copy that reaches past the end of the bag is recorded
  with the first offset it touches there.\<close>

definition certBag_append ::
    "platform \<Rightarrow> nat \<Rightarrow> bytes \<Rightarrow> nat \<Rightarrow> nat \<Rightarrow> BARNACLE_CERTSTORE \<times> nat list \<Rightarrow>
     BARNACLE_CERTSTORE \<times> nat list" where
  "certBag_append plat slot src start n st =
     (let cs = fst st; c = cs_cursor cs; cap = sizeof_CertStore_certBag plat
      in certBag_terminate plat
           (cs\<lparr>cs_certBag := memcpy_at (cs_certBag cs) c
                                (flash_read src start (min n (cap - c))),
               cs_certTable := (cs_certTable cs)
                 (slot := \<lparr>ci_start = of_nat c, ci_size = of_nat n\<rparr>),
               cs_cursor := (c + n) mod 2 ^ 32\<rparr>,
            if 0 < n \<and> cap < c + n then snd st @ [max c cap] else snd st))"

text \<open>Lines 353 to 400: the store after \<^verbatim>\<open>memset\<close>, then the three appends, each behind
  its capacity check. The sum of a check is one of \<^verbatim>\<open>uint32_t\<close> values and wraps before it
  is compared with \<^verbatim>\<open>sizeof(CertStore.certBag)\<close>. The first component is the line printed
  by a failed check, after which the source goes to \<^verbatim>\<open>Cleanup\<close>.\<close>

definition handoff_CertStore ::
    "platform \<Rightarrow> BARNACLE_ISSUED_PUBLIC \<Rightarrow> BARNACLE_CACHED_DATA \<Rightarrow>
     string option \<times> BARNACLE_CERTSTORE \<times> nat list" where
  "handoff_CertStore plat issued cache =
     (let cap = sizeof_CertStore_certBag plat;
          root = ic_certTable issued BARNACLE_ISSUED_ROOT;
          device = ic_certTable issued BARNACLE_ISSUED_DEVICE;
          st1 = (\<lparr>cs_magic = BARNACLEMAGIC plat, cs_certTable = (\<lambda>i. zero_index),
                  cs_cursor = 0, cs_certBag = replicate cap 0\<rparr>, [])
      in if (cs_cursor (fst st1) + unat (ci_size root)) mod 2 ^ 32 > cap
         then (Some ''ERROR: Certstore overflow BARNACLE_ISSUED_ROOT.'', st1)
         else
           (let st2 = (if ic_flags issued AND BARNACLE_ISSUEDFLAG_PROVISIONIED plat \<noteq> 0 \<and>
                          ci_size root \<noteq> 0
                       then certBag_append plat BARNACLE_CERTSTORE_ROOT (ic_certBag issued)
                              (unat (ci_start root)) (unat (ci_size root)) st1
                       else st1)
            in if (cs_cursor (fst st2) + unat (ci_size device)) mod 2 ^ 32 > cap
               then (Some ''ERROR: Certstore overflow BARNACLE_ISSUED_DEVICE.'', st2)
               else
                 (let st3 = certBag_append plat BARNACLE_CERTSTORE_DEVICE (ic_certBag issued)
                              (unat (ci_start device)) (unat (ci_size device)) st2
                  in if (cs_cursor (fst st3) + unat (fc_compoundCertSize cache)) mod 2 ^ 32 > cap
                     then (Some ''ERROR: Certstore overflow BARNACLE_CERTSTORE_LOADER.'', st3)
                     else (None,
                           certBag_append plat BARNACLE_CERTSTORE_LOADER (fc_cert cache) 0
                             (unat (fc_compoundCertSize cache)) st3))))"

text \<open>Lines 350 to 400 on the state. \<^verbatim>\<open>result\<close> is not assigned in this part: the
  three overflow branches print and go to \<^verbatim>\<open>Cleanup\<close> with the value it had.\<close>

definition BarnacleVerifyAgent_handoff :: "platform \<Rightarrow> bool \<Rightarrow> state \<Rightarrow> bool \<times> state" where
  "BarnacleVerifyAgent_handoff plat result s =
     (case handoff_CertStore plat (IssuedCerts s) (FwCache s) of
        (err, cs, overrun) \<Rightarrow>
          (let s1 = s\<lparr>CompoundId := \<lparr>id_magic = BARNACLEMAGIC plat,
                                      id_pubKey = fc_compoundPubKey (FwCache s),
                                      id_privKey = fc_compoundPrivKey (FwCache s)\<rparr>,
                      CertStore := cs,
                      certBag_overrun := certBag_overrun s @ overrun\<rparr>
           in (result, case err of None \<Rightarrow> s1 | Some m \<Rightarrow> say m s1)))"

definition BarnacleVerifyAgent :: "platform \<Rightarrow> state \<Rightarrow> bool \<times> state" where
  "BarnacleVerifyAgent plat s =
     (case BarnacleVerifyAgent_checks plat s of
        Inl err \<Rightarrow> (False, say err s)
      | Inr digest \<Rightarrow>
          if fc_magic (FwCache s) \<noteq> BARNACLEMAGIC plat \<or>
             digest \<noteq> fc_agentHdrDigest (FwCache s)
          then (case BarnacleVerifyAgent_refresh plat digest s of
                  (False, s2) \<Rightarrow> (False, s2)
                | (True, s2) \<Rightarrow> BarnacleVerifyAgent_handoff plat True s2)
          else BarnacleVerifyAgent_handoff plat True s)"

section \<open>The DER builder\<close>

text \<open>Modelled from the spec: the DER encoder (\<^verbatim>\<open>derenc.c\<close>) is not part of the sources
  at hand. A builder owns a buffer and a nesting stack of at most 8 open elements. An
  \<^emph>\<open>add\<close> operation appends one primitive element; a \<^emph>\<open>start\<close> operation opens a
  constructed element and pushes it on the stack; \<^emph>\<open>pop nesting\<close> closes the innermost
  open element. An operation fails with overflow when the append would exceed the
  capacity of the buffer or the stack would exceed 8 entries, and a pop on an empty stack
  is invalid. The buffer is kept as the elements it encodes. Its capacity counts encoded
  bytes, which are not modelled: whether an operation exceeds it is a parameter.\<close>

datatype der =
  Boolean bool
| Integer int
| ShortExplicitInteger int
| IntegerFromArray bytes
| OID "int list"
| UTF8String string
| UTCTime string
| OctetString bytes
| BitString bytes
| SequenceOrSet bool "der list"
| Explicit nat "der list"
| EnvelopingOctetString "der list"
| EnvelopingBitString "der list"

datatype nesting = InSequenceOrSet bool | InExplicit nat | InOctetString | InBitString

record DERBuilderContext =
  Buffer :: "der list"
  CollectionStart :: "(nesting \<times> der list) list"

record derenc =
  add_overflows :: "DERBuilderContext \<Rightarrow> der \<Rightarrow> bool"
  start_overflows :: "DERBuilderContext \<Rightarrow> nesting \<Rightarrow> bool"
  pop_overflows :: "DERBuilderContext \<Rightarrow> bool"
  RIOT_X509_KEY_USAGE :: byte
  RIOT_COORDMAX :: nat
  curveOID :: "int list"
  RiotCrypt_ExportEccPub :: "bytes \<Rightarrow> nat \<Rightarrow> bytes option"
  mbedtls_sha1_ret :: "bytes \<Rightarrow> bytes"
  x509_RiotCrypt_Hash :: "bytes \<Rightarrow> bytes"
  Base64Encode :: "bytes \<Rightarrow> nat \<Rightarrow> string option"

definition DER_MAX_NESTED :: nat where
  "DER_MAX_NESTED = 8"

definition DERInitContext :: DERBuilderContext where
  "DERInitContext = \<lparr>Buffer = [], CollectionStart = []\<rparr>"

definition emit :: "der \<Rightarrow> DERBuilderContext \<Rightarrow> DERBuilderContext" where
  "emit x ctx =
     (case CollectionStart ctx of
        [] \<Rightarrow> ctx\<lparr>Buffer := Buffer ctx @ [x]\<rparr>
      | (k, xs) # outer \<Rightarrow> ctx\<lparr>CollectionStart := (k, xs @ [x]) # outer\<rparr>)"

definition DERAdd :: "derenc \<Rightarrow> der \<Rightarrow> DERBuilderContext \<Rightarrow> DERBuilderContext option" where
  "DERAdd env x ctx = (if add_overflows env ctx x then None else Some (emit x ctx))"

definition DERStart :: "derenc \<Rightarrow> nesting \<Rightarrow> DERBuilderContext \<Rightarrow> DERBuilderContext option" where
  "DERStart env k ctx =
     (if start_overflows env ctx k \<or> \<not> length (CollectionStart ctx) < DER_MAX_NESTED
      then None
      else Some (ctx\<lparr>CollectionStart := (k, []) # CollectionStart ctx\<rparr>))"

definition close_nesting :: "nesting \<Rightarrow> der list \<Rightarrow> der" where
  "close_nesting k xs =
     (case k of
        InSequenceOrSet b \<Rightarrow> SequenceOrSet b xs
      | InExplicit n \<Rightarrow> Explicit n xs
      | InOctetString \<Rightarrow> EnvelopingOctetString xs
      | InBitString \<Rightarrow> EnvelopingBitString xs)"

definition DERPopNesting :: "derenc \<Rightarrow> DERBuilderContext \<Rightarrow> DERBuilderContext option" where
  "DERPopNesting env ctx =
     (case CollectionStart ctx of
        [] \<Rightarrow> None
      | (k, xs) # outer \<Rightarrow>
          if pop_overflows env ctx then None
          else Some (emit (close_nesting k xs) (ctx\<lparr>CollectionStart := outer\<rparr>)))"

definition DERGetNestingDepth :: "DERBuilderContext \<Rightarrow> nat" where
  "DERGetNestingDepth ctx = length (CollectionStart ctx)"

definition DERStartSequenceOrSet :: "derenc \<Rightarrow> bool \<Rightarrow> DERBuilderContext \<Rightarrow> DERBuilderContext option" where
  "DERStartSequenceOrSet env b = DERStart env (InSequenceOrSet b)"

definition DERStartExplicit :: "derenc \<Rightarrow> nat \<Rightarrow> DERBuilderContext \<Rightarrow> DERBuilderContext option" where
  "DERStartExplicit env n = DERStart env (InExplicit n)"

definition DERStartEnvelopingOctetString :: "derenc \<Rightarrow> DERBuilderContext \<Rightarrow> DERBuilderContext option" where
  "DERStartEnvelopingOctetString env = DERStart env InOctetString"

definition DERAddBoolean :: "derenc \<Rightarrow> bool \<Rightarrow> DERBuilderContext \<Rightarrow> DERBuilderContext option" where
  "DERAddBoolean env b = DERAdd env (Boolean b)"

definition DERAddInteger :: "derenc \<Rightarrow> int \<Rightarrow> DERBuilderContext \<Rightarrow> DERBuilderContext option" where
  "DERAddInteger env v = DERAdd env (Integer v)"

definition DERAddShortExplicitInteger :: "derenc \<Rightarrow> int \<Rightarrow> DERBuilderContext \<Rightarrow> DERBuilderContext option" where
  "DERAddShortExplicitInteger env v = DERAdd env (ShortExplicitInteger v)"

definition DERAddIntegerFromArray :: "derenc \<Rightarrow> bytes \<Rightarrow> nat \<Rightarrow> DERBuilderContext \<Rightarrow> DERBuilderContext option" where
  "DERAddIntegerFromArray env val n = DERAdd env (IntegerFromArray (take n val))"

text \<open>The OID arrays end with the sentinel \<open>-1\<close>; the element holds the arcs before it.\<close>

definition DERAddOID :: "derenc \<Rightarrow> int list \<Rightarrow> DERBuilderContext \<Rightarrow> DERBuilderContext option" where
  "DERAddOID env oid = DERAdd env (OID (takeWhile (\<lambda>v. v \<noteq> - 1) oid))"

text \<open>The strings are \<^verbatim>\<open>const char *\<close>; the source never tests them, and a null pointer
  makes the call fail here.\<close>

definition DERAddUTF8String :: "derenc \<Rightarrow> string option \<Rightarrow> DERBuilderContext \<Rightarrow> DERBuilderContext option" where
  "DERAddUTF8String env str ctx =
     (case str of None \<Rightarrow> None | Some cs \<Rightarrow> DERAdd env (UTF8String cs) ctx)"

definition DERAddUTCTime :: "derenc \<Rightarrow> string \<Rightarrow> DERBuilderContext \<Rightarrow> DERBuilderContext option" where
  "DERAddUTCTime env str = DERAdd env (UTCTime str)"

definition DERAddOctetString :: "derenc \<Rightarrow> bytes \<Rightarrow> DERBuilderContext \<Rightarrow> DERBuilderContext option" where
  "DERAddOctetString env bs = DERAdd env (OctetString bs)"

definition DERAddBitString :: "derenc \<Rightarrow> bytes \<Rightarrow> DERBuilderContext \<Rightarrow> DERBuilderContext option" where
  "DERAddBitString env bs = DERAdd env (BitString bs)"

section \<open>The X.509 profile encoder\<close>

text \<open>\<^verbatim>\<open>x509bldr.c\<close>. Every call is wrapped in \<^verbatim>\<open>CHK\<close>, which leaves the function with
  \<open>-1\<close> at the first negative return: a function body is the list of its calls, run in
  order on the context until one fails. \<open>None\<close> stands for the negative return.\<close>

fun CHK :: "(DERBuilderContext \<Rightarrow> DERBuilderContext option) list \<Rightarrow>
            DERBuilderContext \<Rightarrow> DERBuilderContext option" where
  "CHK [] ctx = Some ctx"
| "CHK (call # calls) ctx = (case call ctx of None \<Rightarrow> None | Some ctx' \<Rightarrow> CHK calls ctx')"

definition riotOID :: "int list" where "riotOID = [2, 23, 133, 5, 4, 1, - 1]"
definition ecdsaWithSHA256OID :: "int list" where "ecdsaWithSHA256OID = [1, 2, 840, 10045, 4, 3, 2, - 1]"
definition ecPublicKeyOID :: "int list" where "ecPublicKeyOID = [1, 2, 840, 10045, 2, 1, - 1]"
definition keyUsageOID :: "int list" where "keyUsageOID = [2, 5, 29, 15, - 1]"
definition extKeyUsageOID :: "int list" where "extKeyUsageOID = [2, 5, 29, 37, - 1]"
definition extAuthKeyIdentifierOID :: "int list" where "extAuthKeyIdentifierOID = [2, 5, 29, 35, - 1]"
definition clientAuthOID :: "int list" where "clientAuthOID = [1, 3, 6, 1, 5, 5, 7, 3, 2, - 1]"
definition sha256OID :: "int list" where "sha256OID = [2, 16, 840, 1, 101, 3, 4, 2, 1, - 1]"
definition commonNameOID :: "int list" where "commonNameOID = [2, 5, 4, 3, - 1]"
definition countryNameOID :: "int list" where "countryNameOID = [2, 5, 4, 6, - 1]"
definition orgNameOID :: "int list" where "orgNameOID = [2, 5, 4, 10, - 1]"
definition basicConstraintsOID :: "int list" where "basicConstraintsOID = [2, 5, 29, 19, - 1]"

definition RIOT_DIGEST_LENGTH :: nat where
  "RIOT_DIGEST_LENGTH = 32"

definition SHA1_DIGEST_LENGTH :: nat where
  "SHA1_DIGEST_LENGTH = 20"

text \<open>\<^verbatim>\<open>GenerateGuidFromSeed\<close>: the characters \<^verbatim>\<open>Base64Encode\<close> stores in \<^verbatim>\<open>nameBuf\<close>
  (their number is what it leaves in \<^verbatim>\<open>nameBufLen\<close>), or \<open>None\<close> for a negative result.
  The return value of \<^verbatim>\<open>RiotCrypt_Hash\<close> is not looked at.\<close>

definition GenerateGuidFromSeed :: "derenc \<Rightarrow> nat \<Rightarrow> bytes \<Rightarrow> string option" where
  "GenerateGuidFromSeed env nameBufLen seed =
     (let digest = array_of RIOT_DIGEST_LENGTH (x509_RiotCrypt_Hash env seed)
      in Base64Encode env (take 16 digest) nameBufLen)"

definition X509AddExtensions ::
    "derenc \<Rightarrow> bytes \<Rightarrow> bytes \<Rightarrow> DERBuilderContext \<Rightarrow> DERBuilderContext option" where
  "X509AddExtensions env DevIdPub Fwid =
     (let authKeyIdentifier = array_of SHA1_DIGEST_LENGTH (mbedtls_sha1_ret env DevIdPub);
          keyUsage = RIOT_X509_KEY_USAGE env
      in CHK
       [DERStartExplicit env 3,
          DERStartSequenceOrSet env True,
            DERStartSequenceOrSet env True,
              DERAddOID env keyUsageOID,
              DERStartEnvelopingOctetString env,
                DERAddBitString env [keyUsage],
              DERPopNesting env,
            DERPopNesting env,
            DERStartSequenceOrSet env True,
              DERAddOID env extKeyUsageOID,
              DERStartEnvelopingOctetString env,
                DERStartSequenceOrSet env True,
                  DERAddOID env clientAuthOID,
                DERPopNesting env,
              DERPopNesting env,
            DERPopNesting env,
            DERStartSequenceOrSet env True,
              DERAddOID env extAuthKeyIdentifierOID,
              DERStartEnvelopingOctetString env,
                DERStartSequenceOrSet env True,
                  DERStartExplicit env 0,
                    DERAddOctetString env (take 20 authKeyIdentifier),
                  DERPopNesting env,
                DERPopNesting env,
              DERPopNesting env,
            DERPopNesting env,
            DERStartSequenceOrSet env True,
              DERAddOID env riotOID,
              DERStartEnvelopingOctetString env,
                DERStartSequenceOrSet env True,
                  DERAddInteger env 1,
                  DERStartSequenceOrSet env True,
                    DERStartSequenceOrSet env True,
                      DERAddOID env ecPublicKeyOID,
                      DERAddOID env (curveOID env),
                    DERPopNesting env,
                    DERAddBitString env DevIdPub,
                  DERPopNesting env,
                  DERStartSequenceOrSet env True,
                    DERAddOID env sha256OID,
                    DERAddOctetString env Fwid,
                  DERPopNesting env,
                DERPopNesting env,
              DERPopNesting env,
            DERPopNesting env,
          DERPopNesting env,
        DERPopNesting env])"

definition X509AddX501Name ::
    "derenc \<Rightarrow> string option \<Rightarrow> string option \<Rightarrow> string option \<Rightarrow>
     DERBuilderContext \<Rightarrow> DERBuilderContext option" where
  "X509AddX501Name env CommonName OrgName CountryName =
     CHK
       [DERStartSequenceOrSet env True,
          DERStartSequenceOrSet env False,
            DERStartSequenceOrSet env True,
              DERAddOID env commonNameOID,
              DERAddUTF8String env CommonName,
            DERPopNesting env,
          DERPopNesting env,
          DERStartSequenceOrSet env False,
            DERStartSequenceOrSet env True,
              DERAddOID env countryNameOID,
              DERAddUTF8String env CountryName,
            DERPopNesting env,
          DERPopNesting env,
          DERStartSequenceOrSet env False,
            DERStartSequenceOrSet env True,
              DERAddOID env orgNameOID,
              DERAddUTF8String env OrgName,
            DERPopNesting env,
          DERPopNesting env,
        DERPopNesting env]"

text \<open>\<^verbatim>\<open>ASRT(DERGetNestingDepth(Tbs) == 0)\<close> at the end of every builder.\<close>

definition ASRT_depth0 :: "DERBuilderContext \<Rightarrow> DERBuilderContext option" where
  "ASRT_depth0 ctx = (if DERGetNestingDepth ctx = 0 then Some ctx else None)"

definition X509GetDeviceCertTBS ::
    "derenc \<Rightarrow> DERBuilderContext \<Rightarrow> RIOT_X509_TBS_DATA \<Rightarrow> bytes \<Rightarrow> bytes option \<Rightarrow> nat \<Rightarrow>
     DERBuilderContext option" where
  "X509GetDeviceCertTBS env Tbs TbsData DevIdKeyPub RootKeyPub RootKeyPubLen =
     (let keyUsage = RIOT_X509_KEY_USAGE env in
      case RiotCrypt_ExportEccPub env DevIdKeyPub (RIOT_COORDMAX env * 2 + 1) of
        None \<Rightarrow> None
      | Some encBuffer \<Rightarrow>
          (let authKeyIdentifier =
                 (case RootKeyPub of
                    None \<Rightarrow> None
                  | Some root \<Rightarrow>
                      Some (array_of SHA1_DIGEST_LENGTH
                              (mbedtls_sha1_ret env (take RootKeyPubLen root))))
           in CHK
            ([DERStartSequenceOrSet env True,
                DERAddShortExplicitInteger env 2,
                DERAddIntegerFromArray env (SerialNum TbsData) RIOT_X509_SNUM_LEN,
                DERStartSequenceOrSet env True,
                  DERAddOID env ecdsaWithSHA256OID,
                DERPopNesting env,
                X509AddX501Name env (Some (IssuerCommon TbsData)) (Some (IssuerOrg TbsData))
                  (Some (IssuerCountry TbsData)),
                DERStartSequenceOrSet env True,
                  DERAddUTCTime env (ValidFrom TbsData),
                  DERAddUTCTime env (ValidTo TbsData),
                DERPopNesting env,
                X509AddX501Name env (Some (SubjectCommon TbsData)) (SubjectOrg TbsData)
                  (SubjectCountry TbsData),
                DERStartSequenceOrSet env True,
                  DERStartSequenceOrSet env True,
                    DERAddOID env ecPublicKeyOID,
                    DERAddOID env (curveOID env),
                  DERPopNesting env,
                  DERAddBitString env encBuffer,
                DERPopNesting env,
                DERStartExplicit env 3,
                  DERStartSequenceOrSet env True,
                    DERStartSequenceOrSet env True,
                      DERAddOID env keyUsageOID,
                      DERStartEnvelopingOctetString env,
                        DERAddBitString env [keyUsage],
                      DERPopNesting env,
                    DERPopNesting env,
                    DERStartSequenceOrSet env True,
                      DERAddOID env basicConstraintsOID,
                      DERAddBoolean env True,
                      DERStartEnvelopingOctetString env,
                        DERStartSequenceOrSet env True,
                          DERAddBoolean env True,
                          DERAddInteger env 1,
                        DERPopNesting env,
                      DERPopNesting env,
                    DERPopNesting env] @
             (case authKeyIdentifier of
                None \<Rightarrow> []
              | Some keyId \<Rightarrow>
                  [DERStartSequenceOrSet env True,
                     DERAddOID env extAuthKeyIdentifierOID,
                     DERStartEnvelopingOctetString env,
                       DERStartSequenceOrSet env True,
                         DERStartExplicit env 0,
                           DERAddOctetString env (take 20 keyId),
                         DERPopNesting env,
                       DERPopNesting env,
                     DERPopNesting env,
                   DERPopNesting env]) @
             [    DERPopNesting env,
                DERPopNesting env,
              DERPopNesting env,
              ASRT_depth0]) Tbs))"

text \<open>\<^verbatim>\<open>X509GetAliasCertTBS\<close>. A subject common name that starts with \<open>*\<close> is replaced by
  the string left in \<^verbatim>\<open>guidBuffer\<close>: the characters written by \<^verbatim>\<open>Base64Encode\<close> with
  \<^verbatim>\<open>guidBuffer[bufLen-1] = 0\<close> stored over the last of them, read up to the first NUL.\<close>

definition guid_string :: "string \<Rightarrow> string" where
  "guid_string written =
     takeWhile (\<lambda>c. c \<noteq> CHR 0x00) (written[length written - 1 := CHR 0x00])"

definition X509GetAliasCertTBS ::
    "derenc \<Rightarrow> DERBuilderContext \<Rightarrow> RIOT_X509_TBS_DATA \<Rightarrow> bytes \<Rightarrow> bytes \<Rightarrow> bytes \<Rightarrow>
     DERBuilderContext option" where
  "X509GetAliasCertTBS env Tbs TbsData AliasKeyPub DevIdKeyPub Fwid =
     (let sizeof_encBuffer = RIOT_COORDMAX env * 2 + 1;
          subject =
            (if take 1 (SubjectCommon TbsData) = ''*'' then
               (case RiotCrypt_ExportEccPub env DevIdKeyPub sizeof_encBuffer of
                  None \<Rightarrow> None
                | Some encBuffer \<Rightarrow>
                    (case GenerateGuidFromSeed env 64 encBuffer of
                       None \<Rightarrow> None
                     | Some written \<Rightarrow> Some (guid_string written)))
             else Some (SubjectCommon TbsData))
      in case subject of
           None \<Rightarrow> None
         | Some SubjectCommon' \<Rightarrow>
             CHK
              [DERStartSequenceOrSet env True,
                 DERAddShortExplicitInteger env 2,
                 DERAddIntegerFromArray env (SerialNum TbsData) RIOT_X509_SNUM_LEN,
                 DERStartSequenceOrSet env True,
                   DERAddOID env ecdsaWithSHA256OID,
                 DERPopNesting env,
                 X509AddX501Name env (Some (IssuerCommon TbsData)) (Some (IssuerOrg TbsData))
                   (Some (IssuerCountry TbsData)),
                 DERStartSequenceOrSet env True,
                   DERAddUTCTime env (ValidFrom TbsData),
                   DERAddUTCTime env (ValidTo TbsData),
                 DERPopNesting env,
                 X509AddX501Name env (Some SubjectCommon') (SubjectOrg TbsData)
                   (SubjectCountry TbsData),
                 DERStartSequenceOrSet env True,
                   DERStartSequenceOrSet env True,
                     DERAddOID env ecPublicKeyOID,
                     DERAddOID env (curveOID env),
                   DERPopNesting env,
                   (\<lambda>ctx. case RiotCrypt_ExportEccPub env AliasKeyPub sizeof_encBuffer of
                            None \<Rightarrow> None
                          | Some encBuffer \<Rightarrow> DERAddBitString env encBuffer ctx),
                 DERPopNesting env,
                 (\<lambda>ctx. case RiotCrypt_ExportEccPub env DevIdKeyPub sizeof_encBuffer of
                          None \<Rightarrow> None
                        | Some encBuffer \<Rightarrow> X509AddExtensions env encBuffer Fwid ctx),
               DERPopNesting env,
               ASRT_depth0] Tbs)"

definition X509GetRootCertTBS ::
    "derenc \<Rightarrow> DERBuilderContext \<Rightarrow> RIOT_X509_TBS_DATA \<Rightarrow> bytes \<Rightarrow> DERBuilderContext option" where
  "X509GetRootCertTBS env Tbs TbsData RootKeyPub =
     (let keyUsage = RIOT_X509_KEY_USAGE env
      in CHK
        [DERStartSequenceOrSet env True,
           DERAddShortExplicitInteger env 2,
           DERAddIntegerFromArray env (SerialNum TbsData) RIOT_X509_SNUM_LEN,
           DERStartSequenceOrSet env True,
             DERAddOID env ecdsaWithSHA256OID,
           DERPopNesting env,
           X509AddX501Name env (Some (IssuerCommon TbsData)) (Some (IssuerOrg TbsData))
             (Some (IssuerCountry TbsData)),
           DERStartSequenceOrSet env True,
             DERAddUTCTime env (ValidFrom TbsData),
             DERAddUTCTime env (ValidTo TbsData),
           DERPopNesting env,
           X509AddX501Name env (Some (SubjectCommon TbsData)) (SubjectOrg TbsData)
             (SubjectCountry TbsData),
           DERStartSequenceOrSet env True,
             DERStartSequenceOrSet env True,
               DERAddOID env ecPublicKeyOID,
               DERAddOID env (curveOID env),
             DERPopNesting env,
             (\<lambda>ctx. case RiotCrypt_ExportEccPub env RootKeyPub (RIOT_COORDMAX env * 2 + 1) of
                      None \<Rightarrow> None
                    | Some encBuffer \<Rightarrow> DERAddBitString env encBuffer ctx),
           DERPopNesting env,
           DERStartExplicit env 3,
             DERStartSequenceOrSet env True,
               DERStartSequenceOrSet env True,
                 DERAddOID env keyUsageOID,
                 DERStartEnvelopingOctetString env,
                   DERAddBitString env [keyUsage],
                 DERPopNesting env,
               DERPopNesting env,
               DERStartSequenceOrSet env True,
                 DERAddOID env basicConstraintsOID,
                 DERAddBoolean env True,
                 DERStartEnvelopingOctetString env,
                   DERStartSequenceOrSet env True,
                     DERAddBoolean env True,
                     DERAddInteger env 2,
                   DERPopNesting env,
                 DERPopNesting env,
               DERPopNesting env,
             DERPopNesting env,
           DERPopNesting env,
         DERPopNesting env,
         ASRT_depth0] Tbs)"

section \<open>Notions used in the statements\<close>




text \<open>The successful \<^verbatim>\<open>BarnacleFlashPages\<close> calls on \<^verbatim>\<open>FwDeviceId\<close> in a flash log.\<close>

fun FwDeviceId_written :: "flash_write \<times> bool \<Rightarrow> bool" where
  "FwDeviceId_written (WriteFwDeviceId x, ok) = ok"
| "FwDeviceId_written (WriteIssuedCerts x, ok) = False"
| "FwDeviceId_written (WriteFwCache x, ok) = False"

text \<open>Modelled from the spec: the boot sequence (\<^verbatim>\<open>main.c\<close> is not part of the sources at
  hand). Every boot runs the provisioning, then the verification and handoff; a failure
  halts the boot. Successive boots may meet different random numbers and different
  outcomes of the primitives, so each boot has its own platform.\<close>

definition boot :: "platform \<Rightarrow> state \<Rightarrow> state" where
  "boot plat s =
     (case BarnacleInitialProvision plat s of
        (False, s1) \<Rightarrow> s1
      | (True, s1) \<Rightarrow> snd (BarnacleVerifyAgent plat s1))"

fun boots :: "platform list \<Rightarrow> state \<Rightarrow> state" where
  "boots [] s = s"
| "boots (plat # plats) s = boots plats (boot plat s)"

text \<open>The extensions of the certificate profile, as the elements the builder encodes.\<close>

definition keyUsage_extension :: "byte \<Rightarrow> der" where
  "keyUsage_extension ku =
     SequenceOrSet True [OID [2, 5, 29, 15], EnvelopingOctetString [BitString [ku]]]"

definition basicConstraints_extension :: "int \<Rightarrow> der" where
  "basicConstraints_extension pathLen =
     SequenceOrSet True
       [OID [2, 5, 29, 19], Boolean True,
        EnvelopingOctetString [SequenceOrSet True [Boolean True, Integer pathLen]]]"

definition authorityKeyIdentifier_extension :: "bytes \<Rightarrow> der" where
  "authorityKeyIdentifier_extension keyId =
     SequenceOrSet True
       [OID [2, 5, 29, 35],
        EnvelopingOctetString [SequenceOrSet True [Explicit 0 [OctetString keyId]]]]"

definition extendedKeyUsage_clientAuth_extension :: der where
  "extendedKeyUsage_clientAuth_extension =
     SequenceOrSet True
       [OID [2, 5, 29, 37],
        EnvelopingOctetString [SequenceOrSet True [OID [1, 3, 6, 1, 5, 5, 7, 3, 2]]]]"

definition riot_extension :: "int list \<Rightarrow> bytes \<Rightarrow> bytes \<Rightarrow> der" where
  "riot_extension curve devIdPub fwid =
     SequenceOrSet True
       [OID [2, 23, 133, 5, 4, 1],
        EnvelopingOctetString
          [SequenceOrSet True
             [Integer 1,
              SequenceOrSet True
                [SequenceOrSet True [OID [1, 2, 840, 10045, 2, 1], OID curve],
                 BitString devIdPub],
              SequenceOrSet True [OID [2, 16, 840, 1, 101, 3, 4, 2, 1], OctetString fwid]]]]"

text \<open>The extensions of a finished TBS: the content of the \<open>[3]\<close> element that closes
  the TBS sequence.\<close>

definition extensions_block :: "DERBuilderContext \<Rightarrow> der list option" where
  "extensions_block ctx =
     (case Buffer ctx of
        [SequenceOrSet True items] \<Rightarrow>
          (case rev items of
             Explicit n [SequenceOrSet True exts] # before \<Rightarrow>
               if n = 3 then Some exts else None
           | _ \<Rightarrow> None)
      | _ \<Rightarrow> None)"

text \<open>The common name of the subject of a finished TBS: the subject is the sixth element
  of the TBS sequence, and its first relative distinguished name holds the common name.\<close>

definition subject_common_name :: "DERBuilderContext \<Rightarrow> string option" where
  "subject_common_name ctx =
     (case Buffer ctx of
        [SequenceOrSet True items] \<Rightarrow>
          (case drop 5 items of
             SequenceOrSet True
               (SequenceOrSet False [SequenceOrSet True [OID oid, UTF8String cn]] # rdns) # after \<Rightarrow>
               if oid = [2, 5, 4, 3] then Some cn else None
           | _ \<Rightarrow> None)
      | _ \<Rightarrow> None)"

text \<open>A builder with room for everything: no operation exceeds the buffer.\<close>

definition unlimited :: "derenc \<Rightarrow> derenc" where
  "unlimited env =
     env\<lparr>add_overflows := (\<lambda>ctx x. False), start_overflows := (\<lambda>ctx k. False),
         pop_overflows := (\<lambda>ctx. False)\<rparr>"

text \<open>A call refines another when every success of the first is a success of the second
  with the same context.\<close>

definition refines ::
    "(DERBuilderContext \<Rightarrow> DERBuilderContext option) \<Rightarrow>
     (DERBuilderContext \<Rightarrow> DERBuilderContext option) \<Rightarrow> bool" where
  "refines f g \<longleftrightarrow> (\<forall>ctx c. f ctx = Some c \<longrightarrow> g ctx = Some c)"

section \<open>A small platform and image for concrete runs\<close>

text \<open>The primitives of this platform are toys that keep the runs short: the hash of a
  byte string is its sum and its length, a derived key is a prefix of the seed, a
  signature is a prefix of the message with the key. The bags hold 16 bytes.\<close>

definition demo_hash :: "bytes \<Rightarrow> bytes option" where
  "demo_hash bs = Some [sum_list bs, of_nat (length bs)]"

definition demo_platform :: platform where
  "demo_platform =
     \<lparr>BARNACLEMAGIC = 0x42524E43, BARNACLEVERSION = 0x00010000,
      BARNACLE_ISSUEDFLAG_PROVISIONIED = 1, BARNACLE_ISSUEDFLAG_AUTHENTICATED_BOOT = 2,
      BARNACLE_ISSUEDFLAG_WRITELOCK = 4,
      addr_AgentHdr = 0x08020000, addr_AGENTCODE = 0x08020800, addr_IssuedCerts = 0x080FE000,
      sizeof_CertStore_certBag = 16, sizeof_IssuedCerts_certBag = 16,
      sizeof_FwCache_cert = 8, sizeof_codeAuthPubKey = 4,
      BarnacleGetRandom = (\<lambda>n. replicate n 0x5A),
      BarnacleNullCheck = list_all (\<lambda>b. b = 0),
      BarnacleFlashPages = (\<lambda>w. True),
      BigIntToBigVal = (\<lambda>bs. bs),
      RiotCrypt_Hash = demo_hash,
      RiotCrypt_DeriveEccKey = (\<lambda>seed label. Some (take 4 seed, rev (take 4 seed))),
      RiotCrypt_Kdf = (\<lambda>ikm label. Some ikm),
      RiotCrypt_Sign = (\<lambda>msg priv. Some \<lparr>sig_r = take 2 msg, sig_s = priv\<rparr>),
      RiotCrypt_VerifyDigest = (\<lambda>digest sig pub. sig_r sig = take 2 digest \<and> sig_s sig = pub),
      cyrep_X509GetDeviceCertTBS =
        (\<lambda>tbs pub root n. Some (take 2 (SerialNum tbs) @ take 2 pub)),
      cyrep_X509MakeDeviceCert = (\<lambda>tbs sig. Some (tbs @ sig_r sig)),
      cyrep_X509GetAliasCertTBS =
        (\<lambda>tbs pub dev fwid n. Some (take 2 (SerialNum tbs) @ take 2 pub)),
      cyrep_X509MakeAliasCert = (\<lambda>tbs sig. Some (tbs @ sig_r sig)),
      DERtoPEM = (\<lambda>der cap. if length der \<le> cap then Some der else None)\<rparr>"

definition demo_hdr :: BARNACLE_AGENT_HDR where
  "demo_hdr =
     \<lparr>hdr_magic = 0x42524E43, hdr_version = 1, hdr_size = 0x800,
      agent_name = ''agent'', agent_version = 2, agent_issued = 3, agent_size = 4,
      agent_digest = 10 # 4 # replicate 30 0,
      signature_r = [], signature_s = []\<rparr>"

definition demo_id :: BARNACLE_IDENTITY_PRIVATE where
  "demo_id = \<lparr>id_magic = 0x42524E43, id_pubKey = [1, 2, 3, 4], id_privKey = [4, 3, 2, 1]\<rparr>"

definition demo_issued :: BARNACLE_ISSUED_PUBLIC where
  "demo_issued =
     \<lparr>ic_magic = 0x42524E43, ic_flags = 0, ic_codeAuthPubKey = [0, 0, 0, 0],
      ic_certTable = (\<lambda>i. zero_index)(BARNACLE_ISSUED_DEVICE := \<lparr>ci_start = 0, ci_size = 4\<rparr>),
      ic_cursor = 5,
      ic_certBag = [0x44, 0x45, 0x56, 0x31, 0] @ replicate 11 0xFF\<rparr>"

definition demo_cache :: BARNACLE_CACHED_DATA where
  "demo_cache =
     \<lparr>fc_magic = 0x42524E43, fc_lastIssued = 3, fc_lastVersion = 2,
      fc_agentHdrDigest = 84 # 61 # replicate 30 0,
      fc_compoundPubKey = [9, 9], fc_compoundPrivKey = [8, 8],
      fc_compoundCertSize = 3,
      fc_cert = [0x41, 0x4C, 0x31, 0] @ replicate 4 0xFF\<rparr>"

text \<open>A warm image: every record is valid, authenticated boot is off, and the cache holds
  the digest of the header.\<close>

definition demo_state :: state where
  "demo_state =
     \<lparr>AgentHdr = demo_hdr, AgentCode = [1, 2, 3, 4, 0xFF, 0xFF],
      CompoundId = \<lparr>id_magic = 0, id_pubKey = [], id_privKey = []\<rparr>,
      CertStore = \<lparr>cs_magic = 0, cs_certTable = (\<lambda>i. zero_index), cs_cursor = 0,
                   cs_certBag = replicate 16 0\<rparr>,
      IssuedCerts = demo_issued, FwDeviceId = demo_id, FwCache = demo_cache,
      flash_log = [], console = [], certBag_overrun = []\<rparr>"



text \<open>The same image with a device certificate of 17 bytes, one more than
  \<^verbatim>\<open>CertStore.certBag\<close> holds, and with a device certificate of exactly 16 bytes.\<close>

definition demo_state_oversized :: state where
  "demo_state_oversized =
     demo_state\<lparr>IssuedCerts := demo_issued
       \<lparr>ic_certTable := (\<lambda>i. zero_index)(BARNACLE_ISSUED_DEVICE := \<lparr>ci_start = 0, ci_size = 17\<rparr>)\<rparr>\<rparr>"

definition demo_state_full :: state where
  "demo_state_full =
     demo_state\<lparr>IssuedCerts := demo_issued
       \<lparr>ic_certTable := (\<lambda>i. zero_index)(BARNACLE_ISSUED_DEVICE := \<lparr>ci_start = 0, ci_size = 16\<rparr>),
        ic_certBag := replicate 16 0x44\<rparr>\<rparr>"

text \<open>The same image with a cached certificate size of \<open>2 ^ 32 - 5\<close>: after the device
  certificate the cursor is 5, and the sum of the last capacity check wraps to 0.\<close>

definition demo_state_wrapped :: state where
  "demo_state_wrapped =
     demo_state\<lparr>FwCache := demo_cache\<lparr>fc_compoundCertSize := 0xFFFFFFFB\<rparr>\<rparr>"

text \<open>An image after an update that does not raise the version: the cache holds another
  digest and the version and issuance date of the header.\<close>

definition demo_state_updated :: state where
  "demo_state_updated =
     demo_state\<lparr>FwCache := demo_cache\<lparr>fc_agentHdrDigest := 1 # 2 # replicate 30 0\<rparr>\<rparr>"

text \<open>A device before its first boot: the identity region is erased.\<close>

definition demo_state_erased :: state where
  "demo_state_erased =
     demo_state\<lparr>FwDeviceId := \<lparr>id_magic = 0xFFFFFFFF, id_pubKey = [], id_privKey = []\<rparr>\<rparr>"

text \<open>A builder environment with room for everything, a key export that is the identity,
  and toy digests. Its base64 routine writes one letter for every byte and a terminator.\<close>

definition demo_derenc :: derenc where
  "demo_derenc =
     \<lparr>add_overflows = (\<lambda>ctx x. False), start_overflows = (\<lambda>ctx k. False),
      pop_overflows = (\<lambda>ctx. False),
      RIOT_X509_KEY_USAGE = 0x04, RIOT_COORDMAX = 2,
      curveOID = [1, 2, 840, 10045, 3, 1, 7, - 1],
      RiotCrypt_ExportEccPub = (\<lambda>pub cap. if length pub \<le> cap then Some pub else None),
      mbedtls_sha1_ret = (\<lambda>bs. take 20 bs),
      x509_RiotCrypt_Hash = (\<lambda>bs. bs),
      Base64Encode = (\<lambda>bs cap. Some (map (\<lambda>b. CHR ''Q'') bs @ [CHR 0x00]))\<rparr>"

definition demo_tbs :: RIOT_X509_TBS_DATA where
  "demo_tbs =
     \<lparr>SerialNum = [1, 2, 3],
      IssuerCommon = ''CyReP Device'', IssuerOrg = ''Microsoft'', IssuerCountry = ''US'',
      ValidFrom = ''170101000000Z'', ValidTo = ''370101000000Z'',
      SubjectCommon = ''*'', SubjectOrg = Some ''Microsoft'', SubjectCountry = Some ''US''\<rparr>"

section \<open>Auxiliary facts\<close>

lemmas demo_defs = demo_platform_def demo_state_def demo_hdr_def demo_cache_def demo_issued_def
  demo_id_def demo_hash_def

lemmas verify_defs = BarnacleVerifyAgent_def BarnacleVerifyAgent_checks_def
  BarnacleVerifyAgent_refresh_def BarnacleVerifyAgent_handoff_def handoff_CertStore_def
  certBag_append_def certBag_terminate_def authenticated_boot_def rollback_detection_def
  new_cache_def flash_def DERtoPEM_into_def alias_x509TBSData_def serial_of_digest_def
  sign_bytes_def le32_def array_of_def memcpy_at_def flash_read_def say_def zero_index_def
  SHA256_DIGEST_LENGTH_def RIOT_X509_SNUM_LEN_def RIOT_LABEL_IDENTITY_def RIOT_LABEL_SERIAL_def
  BARNACLE_ISSUED_ROOT_def BARNACLE_ISSUED_DEVICE_def BARNACLE_CERTSTORE_ROOT_def
  BARNACLE_CERTSTORE_DEVICE_def BARNACLE_CERTSTORE_LOADER_def

lemma say_fields [simp]:
  "AgentHdr (say m s) = AgentHdr s" "AgentCode (say m s) = AgentCode s"
  "CompoundId (say m s) = CompoundId s" "CertStore (say m s) = CertStore s"
  "IssuedCerts (say m s) = IssuedCerts s" "FwDeviceId (say m s) = FwDeviceId s"
  "FwCache (say m s) = FwCache s" "flash_log (say m s) = flash_log s"
  "console (say m s) = console s @ [swoPrint m]"
  "certBag_overrun (say m s) = certBag_overrun s"
  by (simp_all add: say_def)






lemma checks_cong:
  "AgentHdr s = AgentHdr t \<Longrightarrow> AgentCode s = AgentCode t \<Longrightarrow> IssuedCerts s = IssuedCerts t \<Longrightarrow>
   BarnacleVerifyAgent_checks plat s = BarnacleVerifyAgent_checks plat t"
  by (simp add: BarnacleVerifyAgent_checks_def authenticated_boot_def Let_def
      cong: if_cong option.case_cong)

lemma new_cache_cong:
  "AgentHdr s = AgentHdr t \<Longrightarrow> FwDeviceId s = FwDeviceId t \<Longrightarrow>
   new_cache plat d s = new_cache plat d t"
  by (simp add: new_cache_def Let_def cong: if_cong option.case_cong prod.case_cong)

lemma handoff_fst [simp]: "fst (BarnacleVerifyAgent_handoff plat r s) = r"
  by (simp add: BarnacleVerifyAgent_handoff_def Let_def split: prod.splits)

lemma handoff_frame [simp]:
  "AgentHdr (snd (BarnacleVerifyAgent_handoff plat r s)) = AgentHdr s"
  "AgentCode (snd (BarnacleVerifyAgent_handoff plat r s)) = AgentCode s"
  "IssuedCerts (snd (BarnacleVerifyAgent_handoff plat r s)) = IssuedCerts s"
  "FwDeviceId (snd (BarnacleVerifyAgent_handoff plat r s)) = FwDeviceId s"
  "FwCache (snd (BarnacleVerifyAgent_handoff plat r s)) = FwCache s"
  "flash_log (snd (BarnacleVerifyAgent_handoff plat r s)) = flash_log s"
  by (simp_all add: BarnacleVerifyAgent_handoff_def Let_def split: prod.splits option.splits)

lemma handoff_CertStore_eq:
  "CertStore (snd (BarnacleVerifyAgent_handoff plat r s)) =
   fst (snd (handoff_CertStore plat (IssuedCerts s) (FwCache s)))"
  by (simp add: BarnacleVerifyAgent_handoff_def Let_def split: prod.splits option.splits)

lemma handoff_console:
  "\<exists>ms. console (snd (BarnacleVerifyAgent_handoff plat r s)) = console s @ ms"
  by (simp add: BarnacleVerifyAgent_handoff_def Let_def split: prod.splits option.splits)

lemma rollback_frame [simp]:
  "AgentHdr (rollback_detection plat s) = AgentHdr s"
  "AgentCode (rollback_detection plat s) = AgentCode s"
  "CompoundId (rollback_detection plat s) = CompoundId s"
  "CertStore (rollback_detection plat s) = CertStore s"
  "IssuedCerts (rollback_detection plat s) = IssuedCerts s"
  "FwDeviceId (rollback_detection plat s) = FwDeviceId s"
  "FwCache (rollback_detection plat s) = FwCache s"
  "flash_log (rollback_detection plat s) = flash_log s"
  "certBag_overrun (rollback_detection plat s) = certBag_overrun s"
  by (simp_all add: rollback_detection_def Let_def)

lemma rollback_console:
  "console (rollback_detection plat s) =
     console s @
     (if fc_magic (FwCache s) = BARNACLEMAGIC plat then
        (if fc_lastVersion (FwCache s) \<ge> agent_version (AgentHdr s)
         then [RollbackVersion (fc_lastVersion (FwCache s)) (agent_version (AgentHdr s))] else []) @
        (if fc_lastIssued (FwCache s) \<ge> agent_issued (AgentHdr s)
         then [RollbackIssuance (fc_lastIssued (FwCache s)) (agent_issued (AgentHdr s))] else [])
      else [])"
  by (simp add: rollback_detection_def Let_def)

lemma flash_eq:
  "flash plat w s =
     (BarnacleFlashPages plat w,
      (if BarnacleFlashPages plat w
       then (case w of WriteFwDeviceId x \<Rightarrow> s\<lparr>FwDeviceId := x\<rparr>
                     | WriteIssuedCerts x \<Rightarrow> s\<lparr>IssuedCerts := x\<rparr>
                     | WriteFwCache x \<Rightarrow> s\<lparr>FwCache := x\<rparr>)
       else s)\<lparr>flash_log := flash_log s @ [(w, BarnacleFlashPages plat w)]\<rparr>)"
  by (cases w) (simp_all add: flash_def Let_def)

lemma refresh_fst:
  "fst (BarnacleVerifyAgent_refresh plat d s) =
     (case new_cache plat d s of Inl err \<Rightarrow> False
      | Inr cache \<Rightarrow> BarnacleFlashPages plat (WriteFwCache cache))"
proof -
  have "new_cache plat d (rollback_detection plat s) = new_cache plat d s"
    by (rule new_cache_cong) simp_all
  then show ?thesis
    by (simp add: BarnacleVerifyAgent_refresh_def Let_def flash_eq split: sum.splits)
qed

lemma refresh_console:
  "\<exists>ms. console (snd (BarnacleVerifyAgent_refresh plat d s)) =
         console (rollback_detection plat s) @ ms"
  by (simp add: BarnacleVerifyAgent_refresh_def Let_def flash_eq split: sum.splits)

lemma refresh_success:
  assumes "new_cache plat d s = Inr cache" "BarnacleFlashPages plat (WriteFwCache cache)"
  shows "FwCache (snd (BarnacleVerifyAgent_refresh plat d s)) = cache"
    "flash_log (snd (BarnacleVerifyAgent_refresh plat d s)) = flash_log s @ [(WriteFwCache cache, True)]"
proof -
  have "new_cache plat d (rollback_detection plat s) = new_cache plat d s"
    by (rule new_cache_cong) simp_all
  with assms show "FwCache (snd (BarnacleVerifyAgent_refresh plat d s)) = cache"
    "flash_log (snd (BarnacleVerifyAgent_refresh plat d s)) = flash_log s @ [(WriteFwCache cache, True)]"
    by (simp_all add: BarnacleVerifyAgent_refresh_def Let_def flash_eq)
qed

lemma verify_refresh:
  assumes "BarnacleVerifyAgent_checks plat s = Inr d"
    and "fc_magic (FwCache s) \<noteq> BARNACLEMAGIC plat \<or> d \<noteq> fc_agentHdrDigest (FwCache s)"
  shows "BarnacleVerifyAgent plat s =
     (if fst (BarnacleVerifyAgent_refresh plat d s)
      then BarnacleVerifyAgent_handoff plat True (snd (BarnacleVerifyAgent_refresh plat d s))
      else (False, snd (BarnacleVerifyAgent_refresh plat d s)))"
  using assms by (cases "BarnacleVerifyAgent_refresh plat d s") (auto simp add: BarnacleVerifyAgent_def)

lemma verify_cached:
  assumes "BarnacleVerifyAgent_checks plat s = Inr d"
    and "fc_magic (FwCache s) = BARNACLEMAGIC plat" "d = fc_agentHdrDigest (FwCache s)"
  shows "BarnacleVerifyAgent plat s = BarnacleVerifyAgent_handoff plat True s"
  using assms by (simp add: BarnacleVerifyAgent_def)




lemma certs_frame:
  "FwDeviceId (snd (BarnacleInitialProvision_certs plat s)) = FwDeviceId s"
  by (simp add: BarnacleInitialProvision_certs_def Let_def flash_eq split: option.splits)

lemma certs_log:
  "\<exists>l. flash_log (snd (BarnacleInitialProvision_certs plat s)) = flash_log s @ l \<and>
       (\<forall>x ok. (WriteFwDeviceId x, ok) \<notin> set l)"
  by (simp add: BarnacleInitialProvision_certs_def Let_def flash_eq split: option.splits)

lemma identity_provisioned:
  "id_magic (FwDeviceId s) = BARNACLEMAGIC plat \<Longrightarrow>
   BarnacleInitialProvision_identity plat s = (True, False, s)"
  by (simp add: BarnacleInitialProvision_identity_def)

text \<open>The identity written on first boot, when the key derivation succeeds.\<close>

lemma identity_erased:
  assumes "id_magic (FwDeviceId s) \<noteq> BARNACLEMAGIC plat"
  shows "(\<exists>m. BarnacleInitialProvision_identity plat s = (False, False, say m s) \<and>
            RiotCrypt_DeriveEccKey plat
              (array_of SHA256_DIGEST_LENGTH (BarnacleGetRandom plat SHA256_DIGEST_LENGTH))
              RIOT_LABEL_IDENTITY = None) \<or>
         (\<exists>pub priv. RiotCrypt_DeriveEccKey plat
              (array_of SHA256_DIGEST_LENGTH (BarnacleGetRandom plat SHA256_DIGEST_LENGTH))
              RIOT_LABEL_IDENTITY = Some (pub, priv) \<and>
            BarnacleInitialProvision_identity plat s =
              (let newId = \<lparr>id_magic = BARNACLEMAGIC plat, id_pubKey = pub, id_privKey = priv\<rparr>;
                   ok = BarnacleFlashPages plat (WriteFwDeviceId newId);
                   s1 = s\<lparr>flash_log := flash_log s @ [(WriteFwDeviceId newId, ok)]\<rparr>
               in if ok then (True, True, s1\<lparr>FwDeviceId := newId\<rparr>)
                  else (False, False, say ''ERROR: BarnacleFlashPages failed.'' s1)))"
proof (cases "RiotCrypt_DeriveEccKey plat
              (array_of SHA256_DIGEST_LENGTH (BarnacleGetRandom plat SHA256_DIGEST_LENGTH))
              RIOT_LABEL_IDENTITY")
  case None
  with assms have "BarnacleInitialProvision_identity plat s =
      (False, False, say ''ERROR: RiotCrypt_DeriveEccKey failed.'' s)"
    by (simp add: BarnacleInitialProvision_identity_def)
  with None show ?thesis by blast
next
  case (Some keys)
  obtain pub priv where keys: "keys = (pub, priv)" by (cases keys)
  with Some assms have "BarnacleInitialProvision_identity plat s =
              (let newId = \<lparr>id_magic = BARNACLEMAGIC plat, id_pubKey = pub, id_privKey = priv\<rparr>;
                   ok = BarnacleFlashPages plat (WriteFwDeviceId newId);
                   s1 = s\<lparr>flash_log := flash_log s @ [(WriteFwDeviceId newId, ok)]\<rparr>
               in if ok then (True, True, s1\<lparr>FwDeviceId := newId\<rparr>)
                  else (False, False, say ''ERROR: BarnacleFlashPages failed.'' s1))"
    by (simp add: BarnacleInitialProvision_identity_def Let_def flash_eq)
  with Some keys show ?thesis by blast
qed

text \<open>What one run of the provisioning does to the identity region and to the log.\<close>

lemma provision_effect:
  "(\<exists>l. id_magic (FwDeviceId s) = BARNACLEMAGIC plat \<and>
        FwDeviceId (snd (BarnacleInitialProvision plat s)) = FwDeviceId s \<and>
        flash_log (snd (BarnacleInitialProvision plat s)) = flash_log s @ l \<and>
        (\<forall>x ok. (WriteFwDeviceId x, ok) \<notin> set l)) \<or>
   (\<exists>l. id_magic (FwDeviceId s) \<noteq> BARNACLEMAGIC plat \<and>
        FwDeviceId (snd (BarnacleInitialProvision plat s)) = FwDeviceId s \<and>
        flash_log (snd (BarnacleInitialProvision plat s)) = flash_log s @ l \<and>
        (\<forall>x ok. (WriteFwDeviceId x, ok) \<in> set l \<longrightarrow> \<not> ok)) \<or>
   (\<exists>pub priv l. id_magic (FwDeviceId s) \<noteq> BARNACLEMAGIC plat \<and>
        RiotCrypt_DeriveEccKey plat
          (array_of SHA256_DIGEST_LENGTH (BarnacleGetRandom plat SHA256_DIGEST_LENGTH))
          RIOT_LABEL_IDENTITY = Some (pub, priv) \<and>
        FwDeviceId (snd (BarnacleInitialProvision plat s)) =
          \<lparr>id_magic = BARNACLEMAGIC plat, id_pubKey = pub, id_privKey = priv\<rparr> \<and>
        flash_log (snd (BarnacleInitialProvision plat s)) =
          flash_log s @ (WriteFwDeviceId \<lparr>id_magic = BARNACLEMAGIC plat, id_pubKey = pub,
                                          id_privKey = priv\<rparr>, True) # l \<and>
        (\<forall>x ok. (WriteFwDeviceId x, ok) \<notin> set l))"
proof (cases "id_magic (FwDeviceId s) = BARNACLEMAGIC plat")
  case True
  then have bip: "BarnacleInitialProvision plat s =
      (if ic_magic (IssuedCerts s) \<noteq> BARNACLEMAGIC plat
       then BarnacleInitialProvision_certs plat s else (True, s))"
    by (simp add: BarnacleInitialProvision_def identity_provisioned)
  obtain l where "flash_log (snd (BarnacleInitialProvision_certs plat s)) = flash_log s @ l"
    "\<forall>x ok. (WriteFwDeviceId x, ok) \<notin> set l"
    using certs_log by blast
  then have "\<exists>l. FwDeviceId (snd (BarnacleInitialProvision plat s)) = FwDeviceId s \<and>
        flash_log (snd (BarnacleInitialProvision plat s)) = flash_log s @ l \<and>
        (\<forall>x ok. (WriteFwDeviceId x, ok) \<notin> set l)"
    by (cases "ic_magic (IssuedCerts s) \<noteq> BARNACLEMAGIC plat")
       (auto simp add: bip certs_frame)
  with True show ?thesis by blast
next
  case False
  let ?key = "RiotCrypt_DeriveEccKey plat
          (array_of SHA256_DIGEST_LENGTH (BarnacleGetRandom plat SHA256_DIGEST_LENGTH))
          RIOT_LABEL_IDENTITY"
  from identity_erased [OF False] consider
    (derive) m where "BarnacleInitialProvision_identity plat s = (False, False, say m s)"
  | (flash) pub priv where "?key = Some (pub, priv)"
      "BarnacleInitialProvision_identity plat s =
         (let newId = \<lparr>id_magic = BARNACLEMAGIC plat, id_pubKey = pub, id_privKey = priv\<rparr>;
              ok = BarnacleFlashPages plat (WriteFwDeviceId newId);
              s1 = s\<lparr>flash_log := flash_log s @ [(WriteFwDeviceId newId, ok)]\<rparr>
          in if ok then (True, True, s1\<lparr>FwDeviceId := newId\<rparr>)
             else (False, False, say ''ERROR: BarnacleFlashPages failed.'' s1))"
    by blast
  then show ?thesis
  proof cases
    case derive
    then have "BarnacleInitialProvision plat s = (False, say m s)"
      by (simp add: BarnacleInitialProvision_def)
    then have "FwDeviceId (snd (BarnacleInitialProvision plat s)) = FwDeviceId s \<and>
        flash_log (snd (BarnacleInitialProvision plat s)) = flash_log s @ [] \<and>
        (\<forall>x ok. (WriteFwDeviceId x, ok) \<in> set [] \<longrightarrow> \<not> ok)"
      by simp
    with False show ?thesis by blast
  next
    case flash
    define newId where "newId = \<lparr>id_magic = BARNACLEMAGIC plat, id_pubKey = pub, id_privKey = priv\<rparr>"
    show ?thesis
    proof (cases "BarnacleFlashPages plat (WriteFwDeviceId newId)")
      case ok: False
      with flash(2) have "BarnacleInitialProvision plat s =
          (False, say ''ERROR: BarnacleFlashPages failed.''
                    (s\<lparr>flash_log := flash_log s @ [(WriteFwDeviceId newId, False)]\<rparr>))"
        by (simp add: BarnacleInitialProvision_def Let_def newId_def)
      then have "FwDeviceId (snd (BarnacleInitialProvision plat s)) = FwDeviceId s \<and>
          flash_log (snd (BarnacleInitialProvision plat s)) =
            flash_log s @ [(WriteFwDeviceId newId, False)] \<and>
          (\<forall>x ok. (WriteFwDeviceId x, ok) \<in> set [(WriteFwDeviceId newId, False)] \<longrightarrow> \<not> ok)"
        by simp
      with False show ?thesis by blast
    next
      case ok: True
      let ?s1 = "s\<lparr>flash_log := flash_log s @ [(WriteFwDeviceId newId, True)], FwDeviceId := newId\<rparr>"
      from ok flash(2) have bip: "BarnacleInitialProvision plat s = BarnacleInitialProvision_certs plat ?s1"
        by (simp add: BarnacleInitialProvision_def Let_def newId_def)
      obtain l where l: "flash_log (snd (BarnacleInitialProvision_certs plat ?s1)) = flash_log ?s1 @ l"
        "\<forall>x ok. (WriteFwDeviceId x, ok) \<notin> set l"
        using certs_log by blast
      have "FwDeviceId (snd (BarnacleInitialProvision plat s)) = newId \<and>
          flash_log (snd (BarnacleInitialProvision plat s)) =
            flash_log s @ (WriteFwDeviceId newId, True) # l \<and>
          (\<forall>x ok. (WriteFwDeviceId x, ok) \<notin> set l)"
        using l by (simp add: bip certs_frame)
      with False flash(1) show ?thesis unfolding newId_def by blast
    qed
  qed
qed




lemma refresh_frame:
  "FwDeviceId (snd (BarnacleVerifyAgent_refresh plat d s)) = FwDeviceId s"
  "\<exists>l. flash_log (snd (BarnacleVerifyAgent_refresh plat d s)) = flash_log s @ l \<and>
       (\<forall>x ok. (WriteFwDeviceId x, ok) \<notin> set l)"
  by (simp_all add: BarnacleVerifyAgent_refresh_def Let_def flash_eq split: sum.splits)

lemma verify_frame:
  "FwDeviceId (snd (BarnacleVerifyAgent plat s)) = FwDeviceId s \<and>
   (\<exists>l. flash_log (snd (BarnacleVerifyAgent plat s)) = flash_log s @ l \<and>
        (\<forall>x ok. (WriteFwDeviceId x, ok) \<notin> set l))"
proof (cases "BarnacleVerifyAgent_checks plat s")
  case (Inl err)
  then have "BarnacleVerifyAgent plat s = (False, say err s)"
    by (simp add: BarnacleVerifyAgent_def)
  then show ?thesis by simp
next
  case (Inr d)
  show ?thesis
  proof (cases "fc_magic (FwCache s) \<noteq> BARNACLEMAGIC plat \<or> d \<noteq> fc_agentHdrDigest (FwCache s)")
    case True
    then show ?thesis
      using verify_refresh [OF Inr True] refresh_frame [of plat d s] by auto
  next
    case False
    then have "BarnacleVerifyAgent plat s = BarnacleVerifyAgent_handoff plat True s"
      using Inr by (intro verify_cached) simp_all
    then show ?thesis by simp
  qed
qed

lemma filter_none:
  "(\<forall>x ok. (WriteFwDeviceId x, ok) \<in> set l \<longrightarrow> \<not> ok) \<Longrightarrow> filter FwDeviceId_written l = []"
proof (induction l)
  case Nil
  then show ?case by simp
next
  case (Cons e l)
  obtain w ok where e: "e = (w, ok)" by (cases e)
  from Cons.prems have "\<not> FwDeviceId_written e"
    unfolding e by (cases w) auto
  moreover from Cons have "filter FwDeviceId_written l = []" by auto
  ultimately show ?case by simp
qed

text \<open>One boot: a provisioned identity stays and nothing is written to its region; an
  erased one is written successfully at most once, and is provisioned after that.\<close>

lemma boot_step:
  "(id_magic (FwDeviceId s) = BARNACLEMAGIC plat \<longrightarrow>
      FwDeviceId (boot plat s) = FwDeviceId s \<and>
      filter FwDeviceId_written (flash_log (boot plat s)) = filter FwDeviceId_written (flash_log s)) \<and>
   (id_magic (FwDeviceId s) \<noteq> BARNACLEMAGIC plat \<longrightarrow>
      filter FwDeviceId_written (flash_log (boot plat s)) = filter FwDeviceId_written (flash_log s) \<or>
      (id_magic (FwDeviceId (boot plat s)) = BARNACLEMAGIC plat \<and>
       length (filter FwDeviceId_written (flash_log (boot plat s))) =
         Suc (length (filter FwDeviceId_written (flash_log s)))))"
proof -
  let ?p = "BarnacleInitialProvision plat s"
  obtain l2 where after:
    "FwDeviceId (boot plat s) = FwDeviceId (snd ?p)"
    "flash_log (boot plat s) = flash_log (snd ?p) @ l2"
    "filter FwDeviceId_written l2 = []"
  proof (cases "fst ?p")
    case True
    then have b: "boot plat s = snd (BarnacleVerifyAgent plat (snd ?p))"
      by (cases ?p) (simp add: boot_def)
    from verify_frame [of plat "snd ?p"] obtain l where
      "FwDeviceId (snd (BarnacleVerifyAgent plat (snd ?p))) = FwDeviceId (snd ?p)"
      "flash_log (snd (BarnacleVerifyAgent plat (snd ?p))) = flash_log (snd ?p) @ l"
      "\<forall>x ok. (WriteFwDeviceId x, ok) \<notin> set l" by blast
    then show ?thesis using that [of l] filter_none [of l] by (simp add: b)
  next
    case False
    then have "boot plat s = snd ?p" by (cases ?p) (simp add: boot_def)
    then show ?thesis using that [of "[]"] by simp
  qed
  from provision_effect [of s plat] consider
    (kept) l where "id_magic (FwDeviceId s) = BARNACLEMAGIC plat"
      "FwDeviceId (snd ?p) = FwDeviceId s" "flash_log (snd ?p) = flash_log s @ l"
      "\<forall>x ok. (WriteFwDeviceId x, ok) \<notin> set l"
  | (failed) l where "id_magic (FwDeviceId s) \<noteq> BARNACLEMAGIC plat"
      "FwDeviceId (snd ?p) = FwDeviceId s" "flash_log (snd ?p) = flash_log s @ l"
      "\<forall>x ok. (WriteFwDeviceId x, ok) \<in> set l \<longrightarrow> \<not> ok"
  | (written) pub priv l where "id_magic (FwDeviceId s) \<noteq> BARNACLEMAGIC plat"
      "FwDeviceId (snd ?p) = \<lparr>id_magic = BARNACLEMAGIC plat, id_pubKey = pub, id_privKey = priv\<rparr>"
      "flash_log (snd ?p) = flash_log s @
         (WriteFwDeviceId \<lparr>id_magic = BARNACLEMAGIC plat, id_pubKey = pub, id_privKey = priv\<rparr>, True) # l"
      "\<forall>x ok. (WriteFwDeviceId x, ok) \<notin> set l"
    by blast
  then show ?thesis
  proof cases
    case kept
    then show ?thesis using after filter_none [of l] by simp
  next
    case failed
    then show ?thesis using after filter_none [of l] by simp
  next
    case written
    then show ?thesis using after filter_none [of l] by simp
  qed
qed

lemma boots_written_once:
  "\<forall>p\<in>set plats. BARNACLEMAGIC p = m \<Longrightarrow>
   length (filter FwDeviceId_written (flash_log (boots plats s))) \<le>
     length (filter FwDeviceId_written (flash_log s)) +
     (if id_magic (FwDeviceId s) = m then 0 else 1)"
proof (induction plats arbitrary: s)
  case Nil
  then show ?case by simp
next
  case (Cons p plats)
  then have m: "BARNACLEMAGIC p = m" and rest: "\<forall>p\<in>set plats. BARNACLEMAGIC p = m" by simp_all
  note ih = Cons.IH [OF rest, of "boot p s"]
  show ?case
  proof (cases "id_magic (FwDeviceId s) = m")
    case True
    with boot_step [of s p] m ih show ?thesis by simp
  next
    case False
    with boot_step [of s p] m have
      "filter FwDeviceId_written (flash_log (boot p s)) = filter FwDeviceId_written (flash_log s) \<or>
       (id_magic (FwDeviceId (boot p s)) = m \<and>
        length (filter FwDeviceId_written (flash_log (boot p s))) =
          Suc (length (filter FwDeviceId_written (flash_log s))))" by simp
    then show ?thesis
    proof
      assume "filter FwDeviceId_written (flash_log (boot p s)) = filter FwDeviceId_written (flash_log s)"
      with ih False show ?thesis by (simp split: if_splits)
    next
      assume "id_magic (FwDeviceId (boot p s)) = m \<and>
        length (filter FwDeviceId_written (flash_log (boot p s))) =
          Suc (length (filter FwDeviceId_written (flash_log s)))"
      with ih False show ?thesis by simp
    qed
  qed
qed




lemma serial_byte_positive: "((x::byte) AND 0x7F OR 1) AND 0x80 = 0"
proof -
  have "((x::byte) AND 0x7F OR 1) AND 0x80 = (x AND (0x7F AND 0x80)) OR (1 AND 0x80)"
    by (simp only: bit.conj_disj_distrib2 and.assoc)
  also have "\<dots> = 0" by simp
  finally show ?thesis .
qed

lemma serial_byte_odd: "((x::byte) AND 0x7F OR 1) AND 1 \<noteq> 0"
proof -
  have "((x::byte) AND 0x7F OR 1) AND 1 = (x AND (0x7F AND 1)) OR (1 AND 1)"
    by (simp only: bit.conj_disj_distrib2 and.assoc)
  also have "\<dots> = (x AND 1) OR 1" by simp
  finally have e: "((x::byte) AND 0x7F OR 1) AND 1 = (x AND 1) OR 1" .
  have "bit ((x AND 1) OR (1::byte)) 0" by (simp add: bit_simps)
  then have "(x AND 1) OR (1::byte) \<noteq> 0" by auto
  with e show ?thesis by simp
qed



lemma length_decimal_small: "n < 10 \<Longrightarrow> length (decimal n) = 1"
  by (simp add: decimal.simps)

lemma length_decimal_two: "10 \<le> n \<Longrightarrow> n < 100 \<Longrightarrow> length (decimal n) = 2"
  by (subst decimal.simps) (simp add: length_decimal_small)

lemma length_fmt_02u: "n \<le> 99 \<Longrightarrow> length (fmt_02u n) = 2"
  by (cases "n < 10") (simp_all add: fmt_02u_def Let_def length_decimal_small length_decimal_two)

lemma pages_bound: "unat ((w::u32) div 4096) < 1048576"
proof -
  have "unat w < 2 ^ 32" using unsigned_less [of w, where 'a = nat] by simp
  then have "unat w div 4096 < 1048576" by simp
  then show ?thesis by (simp add: unat_div)
qed

lemma sint_pages: "sint ((w::u32) div 4096) = int (unat (w div 4096))"
proof -
  have e: "uint (w div 4096) = int (unat (w div 4096))" by (rule uint_nat)
  have "unat (w div 4096) < 1048576" by (rule pages_bound)
  then have "int (unat (w div 4096)) < 2147483648" by linarith
  with e have hi: "uint (w div 4096) < 2147483648" by simp
  have "(- 2147483648 :: int) \<le> 0" by simp
  also have "0 \<le> uint (w div 4096)" by simp
  finally have lo: "- 2147483648 \<le> uint (w div 4096)" .
  have "- (2 ^ 31) \<le> uint (w div 4096) \<and> uint (w div 4096) < 2 ^ 31"
    using lo hi by simp
  then have "signed_take_bit 31 (uint (w div 4096)) = uint (w div 4096)"
    by (simp only: signed_take_bit_int_eq_self_iff)
  then have "sint (w div 4096) = uint (w div 4096)" by (simp add: sint_uint)
  with e show ?thesis by linarith
qed


lemma dfu_loop_groups:
  "0 \<le> a \<Longrightarrow> length w + 9 * nat ((a + 98) div 99) + 1 \<le> 128 \<Longrightarrow>
   \<exists>ns. dfu_loop a w = Some (w @ concat (map (\<lambda>n. fmt_02u n @ ''*004Kf,'') ns)) \<and>
        (\<forall>n\<in>set ns. 0 < n \<and> n \<le> 99) \<and> int (sum_list ns) = a \<and>
        length ns = nat ((a + 98) div 99)"
proof (induction a w rule: dfu_loop.induct)
  case (1 agentArea written)
  show ?case
  proof (cases "agentArea > 0")
    case False
    with "1.prems" have zero: "agentArea = 0" by simp
    then have "dfu_loop agentArea written =
        Some (written @ concat (map (\<lambda>n. fmt_02u n @ ''*004Kf,'') []))"
      by (simp add: dfu_loop.simps)
    with zero show ?thesis by (intro exI [of _ "[]"]) simp
  next
    case True
    define it where "it = min agentArea 99"
    have it: "0 < it" "it \<le> 99" "it \<le> agentArea" using True by (simp_all add: it_def)
    define w' where "w' = written @ fmt_02u (nat it) @ ''*004Kf,''"
    have len: "length (fmt_02u (nat it)) = 2" using it by (intro length_fmt_02u) simp
    have steps: "nat ((agentArea + 98) div 99) = Suc (nat ((agentArea - it + 98) div 99))"
      using it True unfolding it_def by (cases "agentArea \<le> 99") (auto simp: min_def)
    have room: "length written + 9 + 1 \<le> 128" using "1.prems"(2) steps by simp
    have sp: "sprintf_dfu written (fmt_02u (nat it) @ ''*004Kf,'') = Some w'"
      using room len by (simp add: sprintf_dfu_def sizeof_dfuString_def w'_def)
    have lw': "length w' = length written + 9" using len by (simp add: w'_def)
    have "\<exists>ns. dfu_loop (agentArea - it) w' =
            Some (w' @ concat (map (\<lambda>n. fmt_02u n @ ''*004Kf,'') ns)) \<and>
          (\<forall>n\<in>set ns. 0 < n \<and> n \<le> 99) \<and> int (sum_list ns) = agentArea - it \<and>
          length ns = nat ((agentArea - it + 98) div 99)"
      using "1.IH" [OF True it_def sp] it "1.prems"(2) steps lw' by simp
    then obtain ns where ns:
      "dfu_loop (agentArea - it) w' = Some (w' @ concat (map (\<lambda>n. fmt_02u n @ ''*004Kf,'') ns))"
      "\<forall>n\<in>set ns. 0 < n \<and> n \<le> 99" "int (sum_list ns) = agentArea - it"
      "length ns = nat ((agentArea - it + 98) div 99)"
      by blast
    have "dfu_loop agentArea written = dfu_loop (agentArea - it) w'"
      using True sp by (subst dfu_loop.simps) (simp add: Let_def it_def)
    with ns have "dfu_loop agentArea written =
        Some (written @ concat (map (\<lambda>n. fmt_02u n @ ''*004Kf,'') (nat it # ns)))"
      by (simp add: w'_def)
    moreover have "\<forall>n\<in>set (nat it # ns). 0 < n \<and> n \<le> 99" using ns(2) it by simp
    moreover have "int (sum_list (nat it # ns)) = agentArea" using ns(3) it by simp
    moreover have "length (nat it # ns) = nat ((agentArea + 98) div 99)"
      using ns(4) steps by simp
    ultimately show ?thesis by blast
  qed
qed




lemma refines_refl: "refines f f"
  by (simp add: refines_def)

lemma refines_DERStart: "refines (DERStart env k) (DERStart (unlimited env) k)"
  by (simp add: refines_def DERStart_def unlimited_def split: if_splits)

lemma refines_DERAdd: "refines (DERAdd env x) (DERAdd (unlimited env) x)"
  by (simp add: refines_def DERAdd_def unlimited_def split: if_splits)

lemma refines_DERPopNesting: "refines (DERPopNesting env) (DERPopNesting (unlimited env))"
  by (simp add: refines_def DERPopNesting_def unlimited_def split: if_splits list.splits)

lemma refines_DERAddUTF8String: "refines (DERAddUTF8String env s) (DERAddUTF8String (unlimited env) s)"
  using refines_DERAdd by (cases s) (simp_all add: refines_def DERAddUTF8String_def)

lemma refines_CHK: "list_all2 refines fs gs \<Longrightarrow> refines (CHK fs) (CHK gs)"
proof (induction fs gs rule: list_all2_induct)
  case Nil
  then show ?case by (simp add: refines_def)
next
  case (Cons f fs g gs)
  then show ?case by (auto simp add: refines_def split: option.splits)
qed

lemma refines_option:
  "(\<And>x. refines (f x) (g x)) \<Longrightarrow>
   refines (\<lambda>ctx. case v of None \<Rightarrow> None | Some x \<Rightarrow> f x ctx)
           (\<lambda>ctx. case v of None \<Rightarrow> None | Some x \<Rightarrow> g x ctx)"
  by (cases v) (simp_all add: refines_def)

lemmas der_calls = DERStartSequenceOrSet_def DERStartExplicit_def DERStartEnvelopingOctetString_def
  DERAddBoolean_def DERAddInteger_def DERAddShortExplicitInteger_def DERAddIntegerFromArray_def
  DERAddOID_def DERAddUTCTime_def DERAddOctetString_def DERAddBitString_def

lemmas refines_intros = refines_DERStart refines_DERAdd refines_DERPopNesting
  refines_DERAddUTF8String refines_refl

lemma unlimited_fields [simp]:
  "RIOT_X509_KEY_USAGE (unlimited env) = RIOT_X509_KEY_USAGE env"
  "RIOT_COORDMAX (unlimited env) = RIOT_COORDMAX env"
  "curveOID (unlimited env) = curveOID env"
  "RiotCrypt_ExportEccPub (unlimited env) = RiotCrypt_ExportEccPub env"
  "mbedtls_sha1_ret (unlimited env) = mbedtls_sha1_ret env"
  "x509_RiotCrypt_Hash (unlimited env) = x509_RiotCrypt_Hash env"
  "Base64Encode (unlimited env) = Base64Encode env"
  by (simp_all add: unlimited_def)

lemma refines_X509AddExtensions:
  "refines (X509AddExtensions env DevIdPub Fwid) (X509AddExtensions (unlimited env) DevIdPub Fwid)"
  unfolding X509AddExtensions_def Let_def der_calls
  by (rule refines_CHK) (simp add: refines_intros)

lemma refines_X509AddX501Name:
  "refines (X509AddX501Name env a b c) (X509AddX501Name (unlimited env) a b c)"
  unfolding X509AddX501Name_def Let_def der_calls
  by (rule refines_CHK) (simp add: refines_intros)

lemma start_unlimited:
  "DERStart (unlimited env) k \<lparr>Buffer = b, CollectionStart = st\<rparr> =
     (if length st < 8 then Some \<lparr>Buffer = b, CollectionStart = (k, []) # st\<rparr> else None)"
  by (simp add: DERStart_def unlimited_def DER_MAX_NESTED_def)

lemma add_unlimited_inner:
  "DERAdd (unlimited env) x \<lparr>Buffer = b, CollectionStart = (k, xs) # st\<rparr> =
     Some \<lparr>Buffer = b, CollectionStart = (k, xs @ [x]) # st\<rparr>"
  by (simp add: DERAdd_def unlimited_def emit_def)

lemma add_unlimited_top:
  "DERAdd (unlimited env) x \<lparr>Buffer = b, CollectionStart = []\<rparr> =
     Some \<lparr>Buffer = b @ [x], CollectionStart = []\<rparr>"
  by (simp add: DERAdd_def unlimited_def emit_def)

lemma pop_unlimited_inner:
  "DERPopNesting (unlimited env) \<lparr>Buffer = b, CollectionStart = (k, xs) # (k', ys) # st\<rparr> =
     Some \<lparr>Buffer = b, CollectionStart = (k', ys @ [close_nesting k xs]) # st\<rparr>"
  by (simp add: DERPopNesting_def unlimited_def emit_def)

lemma pop_unlimited_top:
  "DERPopNesting (unlimited env) \<lparr>Buffer = b, CollectionStart = [(k, xs)]\<rparr> =
     Some \<lparr>Buffer = b @ [close_nesting k xs], CollectionStart = []\<rparr>"
  by (simp add: DERPopNesting_def unlimited_def emit_def)

lemmas unlimited_steps = start_unlimited add_unlimited_inner add_unlimited_top
  pop_unlimited_inner pop_unlimited_top


lemmas x509_oids = riotOID_def ecdsaWithSHA256OID_def ecPublicKeyOID_def keyUsageOID_def
  extKeyUsageOID_def extAuthKeyIdentifierOID_def clientAuthOID_def sha256OID_def
  commonNameOID_def countryNameOID_def orgNameOID_def basicConstraintsOID_def

lemmas x509_extensions = keyUsage_extension_def basicConstraints_extension_def
  authorityKeyIdentifier_extension_def extendedKeyUsage_clientAuth_extension_def
  riot_extension_def

lemma refines_export:
  "(\<And>x. refines (f x) (g x)) \<Longrightarrow>
   refines (\<lambda>ctx. case RiotCrypt_ExportEccPub env k n of None \<Rightarrow> None | Some x \<Rightarrow> f x ctx)
           (\<lambda>ctx. case RiotCrypt_ExportEccPub (unlimited env) k n of None \<Rightarrow> None | Some x \<Rightarrow> g x ctx)"
  by (cases "RiotCrypt_ExportEccPub env k n") (simp_all add: refines_def)

lemma refines_ASRT: "refines ASRT_depth0 ASRT_depth0"
  by (rule refines_refl)


lemma GenerateGuidFromSeed_unlimited [simp]:
  "GenerateGuidFromSeed (unlimited env) n seed = GenerateGuidFromSeed env n seed"
  by (simp add: GenerateGuidFromSeed_def)

lemmas refines_simps = refines_DERStart refines_DERAdd refines_DERPopNesting
  refines_DERAddUTF8String refines_refl refines_X509AddX501Name refines_X509AddExtensions
  refines_option

lemma root_refines:
  "refines (\<lambda>Tbs. X509GetRootCertTBS env Tbs TbsData RootKeyPub)
           (\<lambda>Tbs. X509GetRootCertTBS (unlimited env) Tbs TbsData RootKeyPub)"
  unfolding X509GetRootCertTBS_def Let_def der_calls
  by (rule refines_CHK) (simp add: refines_simps)

lemma device_refines:
  "refines (\<lambda>Tbs. X509GetDeviceCertTBS env Tbs TbsData DevIdKeyPub RootKeyPub RootKeyPubLen)
           (\<lambda>Tbs. X509GetDeviceCertTBS (unlimited env) Tbs TbsData DevIdKeyPub RootKeyPub RootKeyPubLen)"
proof (cases "RiotCrypt_ExportEccPub env DevIdKeyPub (RIOT_COORDMAX env * 2 + 1)")
  case None
  then show ?thesis by (simp add: X509GetDeviceCertTBS_def refines_def)
next
  case (Some enc)
  show ?thesis
  proof (cases RootKeyPub)
    case None
    with Some show ?thesis
      unfolding X509GetDeviceCertTBS_def Let_def der_calls
      by (simp only: unlimited_fields option.case) (rule refines_CHK, simp add: refines_simps)
  next
    case (Some root)
    with \<open>RiotCrypt_ExportEccPub env DevIdKeyPub (RIOT_COORDMAX env * 2 + 1) = Some enc\<close>
    show ?thesis
      unfolding X509GetDeviceCertTBS_def Let_def der_calls
      by (simp only: unlimited_fields option.case) (rule refines_CHK, simp add: refines_simps)
  qed
qed

lemma alias_refines:
  "refines (\<lambda>Tbs. X509GetAliasCertTBS env Tbs TbsData AliasKeyPub DevIdKeyPub Fwid)
           (\<lambda>Tbs. X509GetAliasCertTBS (unlimited env) Tbs TbsData AliasKeyPub DevIdKeyPub Fwid)"
  unfolding X509GetAliasCertTBS_def Let_def der_calls
  apply (simp only: unlimited_fields GenerateGuidFromSeed_unlimited)
  apply (rule refines_option)
  apply (rule refines_CHK)
  apply (simp add: refines_simps)
  done




lemmas x509_run = X509AddX501Name_def X509AddExtensions_def Let_def der_calls DERInitContext_def
  DERAddUTF8String_def ASRT_depth0_def DERGetNestingDepth_def unlimited_steps close_nesting_def

lemma root_extensions:
  "(case X509GetRootCertTBS (unlimited env) DERInitContext TbsData RootKeyPub of
      None \<Rightarrow> True
    | Some Tbs \<Rightarrow> extensions_block Tbs =
        Some [keyUsage_extension (RIOT_X509_KEY_USAGE env), basicConstraints_extension 2])"
  by (cases "RiotCrypt_ExportEccPub env RootKeyPub (RIOT_COORDMAX env * 2 + 1)";
      cases "SubjectOrg TbsData"; cases "SubjectCountry TbsData")
     (simp_all add: X509GetRootCertTBS_def x509_run extensions_block_def x509_extensions x509_oids)

lemma device_extensions:
  "(case X509GetDeviceCertTBS (unlimited env) DERInitContext TbsData DevIdKeyPub RootKeyPub
           RootKeyPubLen of
      None \<Rightarrow> True
    | Some Tbs \<Rightarrow> extensions_block Tbs =
        Some ([keyUsage_extension (RIOT_X509_KEY_USAGE env), basicConstraints_extension 1] @
              (case RootKeyPub of
                 None \<Rightarrow> []
               | Some root \<Rightarrow>
                   [authorityKeyIdentifier_extension
                      (take 20 (array_of SHA1_DIGEST_LENGTH
                         (mbedtls_sha1_ret env (take RootKeyPubLen root))))])))"
  by (cases "RiotCrypt_ExportEccPub env DevIdKeyPub (RIOT_COORDMAX env * 2 + 1)";
      cases "SubjectOrg TbsData"; cases "SubjectCountry TbsData"; cases RootKeyPub)
     (simp_all add: X509GetDeviceCertTBS_def x509_run extensions_block_def x509_extensions x509_oids)

lemma alias_extensions:
  "(case X509GetAliasCertTBS (unlimited env) DERInitContext TbsData AliasKeyPub DevIdKeyPub Fwid of
      None \<Rightarrow> True
    | Some Tbs \<Rightarrow>
        (case RiotCrypt_ExportEccPub env DevIdKeyPub (RIOT_COORDMAX env * 2 + 1) of
           None \<Rightarrow> False
         | Some enc \<Rightarrow>
             extensions_block Tbs =
               Some [keyUsage_extension (RIOT_X509_KEY_USAGE env),
                     extendedKeyUsage_clientAuth_extension,
                     authorityKeyIdentifier_extension
                       (take 20 (array_of SHA1_DIGEST_LENGTH (mbedtls_sha1_ret env enc))),
                     riot_extension (takeWhile (\<lambda>v. v \<noteq> - 1) (curveOID env)) enc Fwid]))"
  by (cases "RiotCrypt_ExportEccPub env DevIdKeyPub (RIOT_COORDMAX env * 2 + 1)";
      cases "RiotCrypt_ExportEccPub env AliasKeyPub (RIOT_COORDMAX env * 2 + 1)";
      cases "SubjectOrg TbsData"; cases "SubjectCountry TbsData";
      cases "take 1 (SubjectCommon TbsData) = ''*''";
      cases "GenerateGuidFromSeed env 64 (the (RiotCrypt_ExportEccPub env DevIdKeyPub (RIOT_COORDMAX env * 2 + 1)))")
     (simp_all add: X509GetAliasCertTBS_def x509_run extensions_block_def x509_extensions x509_oids)

lemma alias_subject:
  "(case X509GetAliasCertTBS (unlimited env) DERInitContext TbsData AliasKeyPub DevIdKeyPub Fwid of
      None \<Rightarrow> True
    | Some Tbs \<Rightarrow>
        subject_common_name Tbs =
          (if take 1 (SubjectCommon TbsData) = ''*''
           then (case RiotCrypt_ExportEccPub env DevIdKeyPub (RIOT_COORDMAX env * 2 + 1) of
                   None \<Rightarrow> None
                 | Some enc \<Rightarrow> map_option guid_string (GenerateGuidFromSeed env 64 enc))
           else Some (SubjectCommon TbsData)))"
  by (cases "RiotCrypt_ExportEccPub env DevIdKeyPub (RIOT_COORDMAX env * 2 + 1)";
      cases "RiotCrypt_ExportEccPub env AliasKeyPub (RIOT_COORDMAX env * 2 + 1)";
      cases "SubjectOrg TbsData"; cases "SubjectCountry TbsData";
      cases "take 1 (SubjectCommon TbsData) = ''*''";
      cases "GenerateGuidFromSeed env 64 (the (RiotCrypt_ExportEccPub env DevIdKeyPub (RIOT_COORDMAX env * 2 + 1)))")
     (simp_all add: X509GetAliasCertTBS_def x509_run subject_common_name_def x509_oids)

lemma handoff_overrun:
  "certBag_overrun (snd (BarnacleVerifyAgent_handoff plat r s)) =
   certBag_overrun s @ snd (snd (handoff_CertStore plat (IssuedCerts s) (FwCache s)))"
  by (simp add: BarnacleVerifyAgent_handoff_def Let_def split: prod.splits option.splits)

lemma length_array_of: "length (array_of n xs) = n"
  by (simp add: array_of_def)

lemma serial_first_byte:
  "serial_of_digest (array_of SHA256_DIGEST_LENGTH k) ! 0 =
     ((array_of SHA256_DIGEST_LENGTH k ! 0) AND 0x7F) OR 0x01"
  by (simp add: serial_of_digest_def Let_def RIOT_X509_SNUM_LEN_def length_array_of
      SHA256_DIGEST_LENGTH_def)

lemma refines_Some: "refines f g \<Longrightarrow> f ctx = Some c \<Longrightarrow> g ctx = Some c"
  by (simp add: refines_def)

lemma demo_derenc_unlimited: "demo_derenc = unlimited demo_derenc"
  by (simp add: demo_derenc_def unlimited_def)

lemma demo_device_tbs:
  "X509GetDeviceCertTBS demo_derenc DERInitContext demo_tbs [7, 7] (Some [1, 2, 3]) 1 \<noteq> None"
  by (subst demo_derenc_unlimited)
     (simp add: X509GetDeviceCertTBS_def x509_run demo_derenc_def demo_tbs_def)

lemma demo_root_tbs:
  "X509GetRootCertTBS demo_derenc DERInitContext demo_tbs [7, 7] \<noteq> None"
  by (subst demo_derenc_unlimited)
     (simp add: X509GetRootCertTBS_def x509_run demo_derenc_def demo_tbs_def)

lemma demo_alias_tbs:
  "X509GetAliasCertTBS demo_derenc DERInitContext demo_tbs [7, 7] [1, 2, 3] [9] \<noteq> None"
  by (subst demo_derenc_unlimited)
     (simp add: X509GetAliasCertTBS_def x509_run demo_derenc_def demo_tbs_def
        GenerateGuidFromSeed_def)

lemma demo_updated_checks:
  "BarnacleVerifyAgent_checks demo_platform demo_state_updated = Inr (84 # 61 # replicate 30 0)"
  by (simp add: demo_state_updated_def demo_defs BarnacleVerifyAgent_checks_def
      authenticated_boot_def sign_bytes_def le32_def array_of_def SHA256_DIGEST_LENGTH_def
      Let_def sum_list_replicate)


section \<open>The integrity gate\<close>




section \<open>The capacity checks of the handoff\<close>

text \<open>
  Claim C2 says that a failed capacity check makes \<^verbatim>\<open>BarnacleVerifyAgent\<close> return false.
  The source prints the overflow line and goes to \<^verbatim>\<open>Cleanup\<close> without assigning
  \<^verbatim>\<open>result\<close>: on a verified image with a current cache, a failed capacity check leaves
  the return value true, and the overflow line is the only one printed.
\<close>

theorem certstore_overflow_returns_true:
  assumes "BarnacleVerifyAgent_checks plat s = Inr d"
    and "fc_magic (FwCache s) = BARNACLEMAGIC plat"
    and "d = fc_agentHdrDigest (FwCache s)"
    and "fst (handoff_CertStore plat (IssuedCerts s) (FwCache s)) = Some m"
  shows "fst (BarnacleVerifyAgent plat s) \<and>
         console (snd (BarnacleVerifyAgent plat s)) = console s @ [swoPrint m]"
proof -
  have "BarnacleVerifyAgent plat s = BarnacleVerifyAgent_handoff plat True s"
    using assms(1-3) by (rule verify_cached)
  then show ?thesis
    using assms(4) by (simp add: BarnacleVerifyAgent_handoff_def Let_def split: prod.splits)
qed

theorem certstore_overflow_returns_true_witness:
  "BarnacleVerifyAgent_checks demo_platform demo_state_oversized = Inr (84 # 61 # replicate 30 0) \<and>
   fst (handoff_CertStore demo_platform (IssuedCerts demo_state_oversized)
          (FwCache demo_state_oversized)) =
     Some ''ERROR: Certstore overflow BARNACLE_ISSUED_DEVICE.'' \<and>
   fst (BarnacleVerifyAgent demo_platform demo_state_oversized) \<and>
   console (snd (BarnacleVerifyAgent demo_platform demo_state_oversized)) =
     [swoPrint ''ERROR: Certstore overflow BARNACLE_ISSUED_DEVICE.'']"
proof -
  have checks: "BarnacleVerifyAgent_checks demo_platform demo_state_oversized =
      Inr (84 # 61 # replicate 30 0)"
    by (simp add: demo_state_oversized_def demo_defs BarnacleVerifyAgent_checks_def
        authenticated_boot_def sign_bytes_def le32_def array_of_def SHA256_DIGEST_LENGTH_def
        Let_def sum_list_replicate)
  have magic: "fc_magic (FwCache demo_state_oversized) = BARNACLEMAGIC demo_platform"
    by (simp add: demo_state_oversized_def demo_defs)
  have cached: "84 # 61 # replicate 30 0 = fc_agentHdrDigest (FwCache demo_state_oversized)"
    by (simp add: demo_state_oversized_def demo_defs)
  have overflow: "fst (handoff_CertStore demo_platform (IssuedCerts demo_state_oversized)
          (FwCache demo_state_oversized)) =
     Some ''ERROR: Certstore overflow BARNACLE_ISSUED_DEVICE.''"
    by (simp add: demo_state_oversized_def demo_defs handoff_CertStore_def Let_def
        BARNACLE_ISSUED_ROOT_def BARNACLE_ISSUED_DEVICE_def zero_index_def)
  have "console demo_state_oversized = []"
    by (simp add: demo_state_oversized_def demo_defs)
  with certstore_overflow_returns_true [OF checks magic cached overflow] checks overflow
  show ?thesis by simp
qed

text \<open>
  Claim C3 says that an append whose capacity check passed stays inside
  \<^verbatim>\<open>CertStore.certBag\<close>. The check does not count the terminator: on a verified image
  with a current cache and no root certificate, a device certificate that fills the bag
  exactly passes the check, its terminator is stored at the offset one past the end of
  the bag, and the cursor ends one above the size of the bag. (The cached certificate is
  one whose size does not make the sum of the last check wrap, so that this check fails
  and the device certificate is the last one appended.)
\<close>

theorem certstore_terminator_overrun:
  assumes "BarnacleVerifyAgent_checks plat s = Inr d"
    and "fc_magic (FwCache s) = BARNACLEMAGIC plat"
    and "d = fc_agentHdrDigest (FwCache s)"
    and "ci_size (ic_certTable (IssuedCerts s) BARNACLE_ISSUED_ROOT) = 0"
    and "unat (ci_size (ic_certTable (IssuedCerts s) BARNACLE_ISSUED_DEVICE)) =
           sizeof_CertStore_certBag plat"
    and "sizeof_CertStore_certBag plat + 1 + unat (fc_compoundCertSize (FwCache s)) < 2 ^ 32"
  shows "certBag_overrun (snd (BarnacleVerifyAgent plat s)) =
           certBag_overrun s @ [sizeof_CertStore_certBag plat] \<and>
         cs_cursor (CertStore (snd (BarnacleVerifyAgent plat s))) =
           sizeof_CertStore_certBag plat + 1"
proof -
  let ?cap = "sizeof_CertStore_certBag plat"
  let ?st1 = "(\<lparr>cs_magic = BARNACLEMAGIC plat, cs_certTable = (\<lambda>i. zero_index),
                cs_cursor = 0, cs_certBag = replicate ?cap 0\<rparr>, [])"
  let ?st3 = "certBag_append plat BARNACLE_CERTSTORE_DEVICE (ic_certBag (IssuedCerts s))
                (unat (ci_start (ic_certTable (IssuedCerts s) BARNACLE_ISSUED_DEVICE))) ?cap ?st1"
  have bva: "BarnacleVerifyAgent plat s = BarnacleVerifyAgent_handoff plat True s"
    using assms(1-3) by (rule verify_cached)
  have small: "?cap mod 2 ^ 32 = ?cap" "(?cap + 1) mod 2 ^ 32 = ?cap + 1"
    "(?cap + 1 + unat (fc_compoundCertSize (FwCache s))) mod 2 ^ 32 =
       ?cap + 1 + unat (fc_compoundCertSize (FwCache s))"
    using assms(6) by simp_all
  have st3: "snd ?st3 = [?cap]" "cs_cursor (fst ?st3) = ?cap + 1"
    using small(1,2) by (simp_all add: certBag_append_def certBag_terminate_def Let_def)
  have "(cs_cursor (fst ?st3) + unat (fc_compoundCertSize (FwCache s))) mod 2 ^ 32 > ?cap"
    unfolding st3(2) small(3) by simp
  then have "snd (handoff_CertStore plat (IssuedCerts s) (FwCache s)) = ?st3"
    using assms(4,5) small(1) by (simp add: handoff_CertStore_def Let_def)
  then have "snd (snd (handoff_CertStore plat (IssuedCerts s) (FwCache s))) = [?cap] \<and>
    cs_cursor (fst (snd (handoff_CertStore plat (IssuedCerts s) (FwCache s)))) = ?cap + 1"
    using st3 by simp
  then show ?thesis
    by (simp add: bva handoff_CertStore_eq handoff_overrun)
qed

theorem certstore_terminator_overrun_witness:
  "BarnacleVerifyAgent_checks demo_platform demo_state_full = Inr (84 # 61 # replicate 30 0) \<and>
   unat (ci_size (ic_certTable (IssuedCerts demo_state_full) BARNACLE_ISSUED_DEVICE)) =
     sizeof_CertStore_certBag demo_platform \<and>
   sizeof_CertStore_certBag demo_platform + 1 +
     unat (fc_compoundCertSize (FwCache demo_state_full)) < 2 ^ 32 \<and>
   certBag_overrun (snd (BarnacleVerifyAgent demo_platform demo_state_full)) = [16] \<and>
   cs_cursor (CertStore (snd (BarnacleVerifyAgent demo_platform demo_state_full))) = 17"
proof -
  have checks: "BarnacleVerifyAgent_checks demo_platform demo_state_full =
      Inr (84 # 61 # replicate 30 0)"
    by (simp add: demo_state_full_def demo_defs BarnacleVerifyAgent_checks_def
        authenticated_boot_def sign_bytes_def le32_def array_of_def SHA256_DIGEST_LENGTH_def
        Let_def sum_list_replicate)
  have magic: "fc_magic (FwCache demo_state_full) = BARNACLEMAGIC demo_platform"
    by (simp add: demo_state_full_def demo_defs)
  have cached: "84 # 61 # replicate 30 0 = fc_agentHdrDigest (FwCache demo_state_full)"
    by (simp add: demo_state_full_def demo_defs)
  have root: "ci_size (ic_certTable (IssuedCerts demo_state_full) BARNACLE_ISSUED_ROOT) = 0"
    by (simp add: demo_state_full_def demo_defs BARNACLE_ISSUED_ROOT_def
        BARNACLE_ISSUED_DEVICE_def zero_index_def)
  have device: "unat (ci_size (ic_certTable (IssuedCerts demo_state_full) BARNACLE_ISSUED_DEVICE)) =
     sizeof_CertStore_certBag demo_platform"
    by (simp add: demo_state_full_def demo_defs BARNACLE_ISSUED_DEVICE_def)
  have loader: "sizeof_CertStore_certBag demo_platform + 1 +
     unat (fc_compoundCertSize (FwCache demo_state_full)) < 2 ^ 32"
    by (simp add: demo_state_full_def demo_defs)
  have start: "certBag_overrun demo_state_full = []" "sizeof_CertStore_certBag demo_platform = 16"
    by (simp_all add: demo_state_full_def demo_defs)
  from certstore_terminator_overrun [OF checks magic cached root device loader]
    checks device loader start
  show ?thesis by simp
qed

section \<open>Serial numbers\<close>

text \<open>
  Claim C4. Whatever the KDF returns, the serial number handed to the certificate builder
  for the self-signed device certificate and for the alias certificate has the top bit
  of its first byte clear and the lowest bit of its first byte set.
\<close>

theorem serial_sanity:
  "(SerialNum (device_x509TBSData (array_of SHA256_DIGEST_LENGTH k)) ! 0) AND 0x80 = 0 \<and>
   (SerialNum (device_x509TBSData (array_of SHA256_DIGEST_LENGTH k)) ! 0) AND 0x01 \<noteq> 0 \<and>
   (SerialNum (alias_x509TBSData name (array_of SHA256_DIGEST_LENGTH k)) ! 0) AND 0x80 = 0 \<and>
   (SerialNum (alias_x509TBSData name (array_of SHA256_DIGEST_LENGTH k)) ! 0) AND 0x01 \<noteq> 0 \<and>
   length (SerialNum (device_x509TBSData (array_of SHA256_DIGEST_LENGTH k))) = RIOT_X509_SNUM_LEN \<and>
   length (SerialNum (alias_x509TBSData name (array_of SHA256_DIGEST_LENGTH k))) = RIOT_X509_SNUM_LEN"
  by (simp add: device_x509TBSData_def alias_x509TBSData_def serial_first_byte
      serial_byte_positive serial_byte_odd)
     (simp add: serial_of_digest_def Let_def length_array_of RIOT_X509_SNUM_LEN_def
      SHA256_DIGEST_LENGTH_def)

theorem serial_sanity_witness:
  "(SerialNum (device_x509TBSData (array_of SHA256_DIGEST_LENGTH [0xFF, 0x10])) ! 0) AND 0x80 = 0 \<and>
   (SerialNum (alias_x509TBSData ''agent'' (array_of SHA256_DIGEST_LENGTH [0x80])) ! 0) AND 0x01 \<noteq> 0"
  using serial_sanity [of "[0xFF, 0x10]" "''agent''"] serial_sanity [of "[0x80]" "''agent''"]
  by blast

section \<open>The device identity is written once\<close>

text \<open>
  Claim C5. When \<^verbatim>\<open>FwDeviceId.info.magic\<close> is \<^verbatim>\<open>BARNACLEMAGIC\<close> on entry,
  \<^verbatim>\<open>BarnacleInitialProvision\<close> leaves \<^verbatim>\<open>FwDeviceId\<close> as it is and makes no flash call on
  that region. A successful flash call on the region happens only when the magic differs,
  and programs the identity derived from the random seed, with the magic set. A changed
  \<^verbatim>\<open>FwDeviceId\<close> therefore has the magic, and over any sequence of boots at most one
  successful flash call is made on the region.
\<close>

theorem device_identity_written_once:
  "(id_magic (FwDeviceId s) = BARNACLEMAGIC plat \<longrightarrow>
      FwDeviceId (snd (BarnacleInitialProvision plat s)) = FwDeviceId s \<and>
      (\<forall>x ok. (WriteFwDeviceId x, ok) \<notin>
         set (drop (length (flash_log s)) (flash_log (snd (BarnacleInitialProvision plat s)))))) \<and>
   (\<forall>x. (WriteFwDeviceId x, True) \<in>
         set (drop (length (flash_log s)) (flash_log (snd (BarnacleInitialProvision plat s)))) \<longrightarrow>
      id_magic (FwDeviceId s) \<noteq> BARNACLEMAGIC plat \<and> id_magic x = BARNACLEMAGIC plat \<and>
      RiotCrypt_DeriveEccKey plat
        (array_of SHA256_DIGEST_LENGTH (BarnacleGetRandom plat SHA256_DIGEST_LENGTH))
        RIOT_LABEL_IDENTITY = Some (id_pubKey x, id_privKey x) \<and>
      FwDeviceId (snd (BarnacleInitialProvision plat s)) = x) \<and>
   (FwDeviceId (snd (BarnacleInitialProvision plat s)) \<noteq> FwDeviceId s \<longrightarrow>
      id_magic (FwDeviceId s) \<noteq> BARNACLEMAGIC plat \<and>
      id_magic (FwDeviceId (snd (BarnacleInitialProvision plat s))) = BARNACLEMAGIC plat) \<and>
   ((\<forall>p\<in>set plats. BARNACLEMAGIC p = BARNACLEMAGIC plat) \<longrightarrow>
      length (filter FwDeviceId_written (flash_log (boots plats s))) \<le>
        length (filter FwDeviceId_written (flash_log s)) + 1)"
proof -
  let ?p = "BarnacleInitialProvision plat s"
  have once: "(\<forall>p\<in>set plats. BARNACLEMAGIC p = BARNACLEMAGIC plat) \<longrightarrow>
      length (filter FwDeviceId_written (flash_log (boots plats s))) \<le>
        length (filter FwDeviceId_written (flash_log s)) + 1"
  proof
    assume "\<forall>p\<in>set plats. BARNACLEMAGIC p = BARNACLEMAGIC plat"
    from boots_written_once [OF this, of s] show
      "length (filter FwDeviceId_written (flash_log (boots plats s))) \<le>
        length (filter FwDeviceId_written (flash_log s)) + 1"
      by (simp split: if_splits)
  qed
  from provision_effect [of s plat] consider
    (kept) l where "id_magic (FwDeviceId s) = BARNACLEMAGIC plat"
      "FwDeviceId (snd ?p) = FwDeviceId s" "flash_log (snd ?p) = flash_log s @ l"
      "\<forall>x ok. (WriteFwDeviceId x, ok) \<notin> set l"
  | (failed) l where "id_magic (FwDeviceId s) \<noteq> BARNACLEMAGIC plat"
      "FwDeviceId (snd ?p) = FwDeviceId s" "flash_log (snd ?p) = flash_log s @ l"
      "\<forall>x ok. (WriteFwDeviceId x, ok) \<in> set l \<longrightarrow> \<not> ok"
  | (written) pub priv l where "id_magic (FwDeviceId s) \<noteq> BARNACLEMAGIC plat"
      "RiotCrypt_DeriveEccKey plat
          (array_of SHA256_DIGEST_LENGTH (BarnacleGetRandom plat SHA256_DIGEST_LENGTH))
          RIOT_LABEL_IDENTITY = Some (pub, priv)"
      "FwDeviceId (snd ?p) = \<lparr>id_magic = BARNACLEMAGIC plat, id_pubKey = pub, id_privKey = priv\<rparr>"
      "flash_log (snd ?p) = flash_log s @
         (WriteFwDeviceId \<lparr>id_magic = BARNACLEMAGIC plat, id_pubKey = pub, id_privKey = priv\<rparr>, True) # l"
      "\<forall>x ok. (WriteFwDeviceId x, ok) \<notin> set l"
    by blast
  then show ?thesis
  proof cases
    case kept
    then show ?thesis using once by simp
  next
    case failed
    then show ?thesis using once by auto
  next
    case written
    then show ?thesis using once by auto
  qed
qed

theorem device_identity_written_once_witness:
  "id_magic (FwDeviceId demo_state) = BARNACLEMAGIC demo_platform \<and>
   FwDeviceId (snd (BarnacleInitialProvision demo_platform demo_state)) = FwDeviceId demo_state \<and>
   id_magic (FwDeviceId demo_state_erased) \<noteq> BARNACLEMAGIC demo_platform \<and>
   FwDeviceId (snd (BarnacleInitialProvision demo_platform demo_state_erased)) \<noteq>
     FwDeviceId demo_state_erased \<and>
   id_magic (FwDeviceId (snd (BarnacleInitialProvision demo_platform demo_state_erased))) =
     BARNACLEMAGIC demo_platform \<and>
   length (filter FwDeviceId_written
     (flash_log (boots [demo_platform, demo_platform] demo_state_erased))) \<le> 1"
proof -
  have a: "id_magic (FwDeviceId demo_state) = BARNACLEMAGIC demo_platform"
    by (simp add: demo_defs)
  have b: "id_magic (FwDeviceId demo_state_erased) \<noteq> BARNACLEMAGIC demo_platform"
    by (simp add: demo_state_erased_def demo_defs)
  have c: "FwDeviceId (snd (BarnacleInitialProvision demo_platform demo_state_erased)) \<noteq>
     FwDeviceId demo_state_erased"
    by (simp add: demo_state_erased_def demo_defs BarnacleInitialProvision_def
        BarnacleInitialProvision_identity_def flash_eq Let_def
        array_of_def SHA256_DIGEST_LENGTH_def certs_frame)
  have d: "\<forall>p\<in>set [demo_platform, demo_platform]. BARNACLEMAGIC p = BARNACLEMAGIC demo_platform"
    by simp
  have e: "flash_log demo_state_erased = []"
    by (simp add: demo_state_erased_def demo_defs)
  note kept = device_identity_written_once [of demo_state demo_platform "[]"]
  note erased = device_identity_written_once
    [of demo_state_erased demo_platform "[demo_platform, demo_platform]"]
  have "FwDeviceId (snd (BarnacleInitialProvision demo_platform demo_state)) = FwDeviceId demo_state"
    using kept a by blast
  moreover have "id_magic (FwDeviceId (snd (BarnacleInitialProvision demo_platform demo_state_erased))) =
     BARNACLEMAGIC demo_platform"
    using erased c by blast
  moreover have "length (filter FwDeviceId_written
     (flash_log (boots [demo_platform, demo_platform] demo_state_erased))) \<le>
       length (filter FwDeviceId_written (flash_log demo_state_erased)) + 1"
    using erased d by blast
  ultimately show ?thesis using a b c e by simp
qed

section \<open>Roll-back detection\<close>

text \<open>
  Claim C6, as amended. When the verification has passed, \<^verbatim>\<open>FwCache\<close> is valid and its
  digest differs from the header digest, a roll-back condition (cached version or
  issuance date not below the header's) makes \<^verbatim>\<open>BarnacleVerifyAgent\<close> print a roll-back
  line and nothing more: the return value is the same for every cached version and
  issuance date, and when the new cache record is built and programmed the function
  returns true with the new record in \<^verbatim>\<open>FwCache\<close>.
\<close>

theorem rollback_warning_only:
  assumes checks: "BarnacleVerifyAgent_checks plat s = Inr d"
    and magic: "fc_magic (FwCache s) = BARNACLEMAGIC plat"
    and update: "d \<noteq> fc_agentHdrDigest (FwCache s)"
    and rollback: "fc_lastVersion (FwCache s) \<ge> agent_version (AgentHdr s) \<or>
                   fc_lastIssued (FwCache s) \<ge> agent_issued (AgentHdr s)"
  shows "(RollbackVersion (fc_lastVersion (FwCache s)) (agent_version (AgentHdr s))
            \<in> set (console (snd (BarnacleVerifyAgent plat s))) \<or>
          RollbackIssuance (fc_lastIssued (FwCache s)) (agent_issued (AgentHdr s))
            \<in> set (console (snd (BarnacleVerifyAgent plat s)))) \<and>
         fst (BarnacleVerifyAgent plat
               (s\<lparr>FwCache := (FwCache s)\<lparr>fc_lastVersion := v, fc_lastIssued := i\<rparr>\<rparr>)) =
           fst (BarnacleVerifyAgent plat s) \<and>
         (new_cache plat d s = Inr cache \<and> BarnacleFlashPages plat (WriteFwCache cache) \<longrightarrow>
            fst (BarnacleVerifyAgent plat s) \<and>
            FwCache (snd (BarnacleVerifyAgent plat s)) = cache \<and>
            (WriteFwCache cache, True) \<in> set (flash_log (snd (BarnacleVerifyAgent plat s))))"
proof (intro conjI impI)
  let ?r = "BarnacleVerifyAgent_refresh plat d s"
  have bva: "BarnacleVerifyAgent plat s =
     (if fst ?r then BarnacleVerifyAgent_handoff plat True (snd ?r) else (False, snd ?r))"
    using checks update by (intro verify_refresh) simp_all
  have fst_bva: "fst (BarnacleVerifyAgent plat s) = fst ?r"
    by (simp add: bva)
  obtain ms where ms: "console (snd ?r) = console (rollback_detection plat s) @ ms"
    using refresh_console by blast
  obtain ms' where ms': "console (snd (BarnacleVerifyAgent plat s)) = console (snd ?r) @ ms'"
  proof (cases "fst ?r")
    case True
    then show ?thesis using handoff_console [of plat True "snd ?r"] that by (auto simp add: bva)
  next
    case False
    then show ?thesis using that [of "[]"] by (simp add: bva)
  qed
  show "RollbackVersion (fc_lastVersion (FwCache s)) (agent_version (AgentHdr s))
            \<in> set (console (snd (BarnacleVerifyAgent plat s))) \<or>
        RollbackIssuance (fc_lastIssued (FwCache s)) (agent_issued (AgentHdr s))
            \<in> set (console (snd (BarnacleVerifyAgent plat s)))"
    using rollback magic by (auto simp add: ms' ms rollback_console)
  let ?s = "s\<lparr>FwCache := (FwCache s)\<lparr>fc_lastVersion := v, fc_lastIssued := i\<rparr>\<rparr>"
  have checks': "BarnacleVerifyAgent_checks plat ?s = Inr d"
    using checks checks_cong [of ?s s plat] by simp
  have "BarnacleVerifyAgent plat ?s =
     (if fst (BarnacleVerifyAgent_refresh plat d ?s)
      then BarnacleVerifyAgent_handoff plat True (snd (BarnacleVerifyAgent_refresh plat d ?s))
      else (False, snd (BarnacleVerifyAgent_refresh plat d ?s)))"
    using checks' update by (intro verify_refresh) simp_all
  then have "fst (BarnacleVerifyAgent plat ?s) = fst (BarnacleVerifyAgent_refresh plat d ?s)"
    by simp
  also have "\<dots> = fst ?r"
    using new_cache_cong [of ?s s plat d] by (simp add: refresh_fst)
  finally show "fst (BarnacleVerifyAgent plat ?s) = fst (BarnacleVerifyAgent plat s)"
    by (simp add: fst_bva)
next
  assume a: "new_cache plat d s = Inr cache \<and> BarnacleFlashPages plat (WriteFwCache cache)"
  let ?r = "BarnacleVerifyAgent_refresh plat d s"
  have bva: "BarnacleVerifyAgent plat s =
     (if fst ?r then BarnacleVerifyAgent_handoff plat True (snd ?r) else (False, snd ?r))"
    using checks update by (intro verify_refresh) simp_all
  have ok: "fst ?r" using a by (simp add: refresh_fst)
  show "fst (BarnacleVerifyAgent plat s)" using ok by (simp add: bva)
  show "FwCache (snd (BarnacleVerifyAgent plat s)) = cache"
    using ok a refresh_success(1) [of plat d s cache] by (simp add: bva)
  show "(WriteFwCache cache, True) \<in> set (flash_log (snd (BarnacleVerifyAgent plat s)))"
    using ok a refresh_success(2) [of plat d s cache] by (simp add: bva)
qed

text \<open>
  The claim as first stated fails on a warm boot of an unchanged agent: the cache is
  valid and holds the version and issuance date of the header, so the condition holds,
  but the roll-back detection sits inside the block that is skipped when the digests
  agree: nothing is printed and nothing is programmed.
\<close>

theorem rollback_no_warning_counterexample:
  "fc_magic (FwCache demo_state) = BARNACLEMAGIC demo_platform \<and>
   fc_lastVersion (FwCache demo_state) \<ge> agent_version (AgentHdr demo_state) \<and>
   fc_lastIssued (FwCache demo_state) \<ge> agent_issued (AgentHdr demo_state) \<and>
   fst (BarnacleVerifyAgent demo_platform demo_state) \<and>
   console (snd (BarnacleVerifyAgent demo_platform demo_state)) = [] \<and>
   flash_log (snd (BarnacleVerifyAgent demo_platform demo_state)) = []"
  by (simp add: demo_defs verify_defs Let_def sum_list_replicate)

theorem rollback_warning_only_witness:
  "BarnacleVerifyAgent_checks demo_platform demo_state_updated = Inr (84 # 61 # replicate 30 0) \<and>
   fc_magic (FwCache demo_state_updated) = BARNACLEMAGIC demo_platform \<and>
   84 # 61 # replicate 30 0 \<noteq> fc_agentHdrDigest (FwCache demo_state_updated) \<and>
   fc_lastVersion (FwCache demo_state_updated) \<ge> agent_version (AgentHdr demo_state_updated) \<and>
   (RollbackVersion 2 2 \<in> set (console (snd (BarnacleVerifyAgent demo_platform demo_state_updated))) \<or>
    RollbackIssuance 3 3 \<in> set (console (snd (BarnacleVerifyAgent demo_platform demo_state_updated)))) \<and>
   fst (BarnacleVerifyAgent demo_platform
          (demo_state_updated\<lparr>FwCache := (FwCache demo_state_updated)
             \<lparr>fc_lastVersion := 0, fc_lastIssued := 0\<rparr>\<rparr>)) =
     fst (BarnacleVerifyAgent demo_platform demo_state_updated) \<and>
   fst (BarnacleVerifyAgent demo_platform demo_state_updated) \<and>
   length (flash_log (snd (BarnacleVerifyAgent demo_platform demo_state_updated))) = 1 \<and>
   fc_agentHdrDigest (FwCache (snd (BarnacleVerifyAgent demo_platform demo_state_updated))) =
     84 # 61 # replicate 30 0"
proof -
  have proceeds: "fst (BarnacleVerifyAgent demo_platform demo_state_updated) \<and>
      length (flash_log (snd (BarnacleVerifyAgent demo_platform demo_state_updated))) = 1 \<and>
      fc_agentHdrDigest (FwCache (snd (BarnacleVerifyAgent demo_platform demo_state_updated))) =
        84 # 61 # replicate 30 0"
    by (simp add: demo_state_updated_def demo_defs verify_defs Let_def sum_list_replicate)
  have magic: "fc_magic (FwCache demo_state_updated) = BARNACLEMAGIC demo_platform"
    by (simp add: demo_state_updated_def demo_defs)
  have update: "84 # 61 # replicate 30 0 \<noteq> fc_agentHdrDigest (FwCache demo_state_updated)"
    by (simp add: demo_state_updated_def demo_defs)
  have version: "fc_lastVersion (FwCache demo_state_updated) \<ge> agent_version (AgentHdr demo_state_updated)"
    by (simp add: demo_state_updated_def demo_defs)
  have nums: "fc_lastVersion (FwCache demo_state_updated) = 2"
    "agent_version (AgentHdr demo_state_updated) = 2"
    "fc_lastIssued (FwCache demo_state_updated) = 3"
    "agent_issued (AgentHdr demo_state_updated) = 3"
    by (simp_all add: demo_state_updated_def demo_defs)
  from version have rollback:
    "fc_lastVersion (FwCache demo_state_updated) \<ge> agent_version (AgentHdr demo_state_updated) \<or>
     fc_lastIssued (FwCache demo_state_updated) \<ge> agent_issued (AgentHdr demo_state_updated)"
    by simp
  note inst = rollback_warning_only [OF demo_updated_checks magic update rollback,
      where v = 0 and i = 0]
  have "(RollbackVersion 2 2
           \<in> set (console (snd (BarnacleVerifyAgent demo_platform demo_state_updated))) \<or>
         RollbackIssuance 3 3
           \<in> set (console (snd (BarnacleVerifyAgent demo_platform demo_state_updated)))) \<and>
        fst (BarnacleVerifyAgent demo_platform
               (demo_state_updated\<lparr>FwCache := (FwCache demo_state_updated)
                  \<lparr>fc_lastVersion := 0, fc_lastIssued := 0\<rparr>\<rparr>)) =
          fst (BarnacleVerifyAgent demo_platform demo_state_updated)"
    using inst by (simp only: nums)
  with demo_updated_checks magic update version proceeds show ?thesis by blast
qed

section \<open>Idempotence of boot\<close>

text \<open>
  With the cached certificate size of \<open>demo_state_wrapped\<close> the sum of the last capacity
  check wraps: the check passes, nothing is printed, and \<^verbatim>\<open>memcpy\<close> runs from offset 5 past
  the end of the 16-byte bag.
\<close>

lemma handoff_wrapped:
  "fst (BarnacleVerifyAgent demo_platform demo_state_wrapped) \<and>
   console (snd (BarnacleVerifyAgent demo_platform demo_state_wrapped)) = [] \<and>
   certBag_overrun (snd (BarnacleVerifyAgent demo_platform demo_state_wrapped)) = [16]"
  by (simp add: demo_state_wrapped_def demo_defs verify_defs Let_def sum_list_replicate)



section \<open>Extension composition\<close>

text \<open>
  Claim C8. On a fresh builder context, whenever a TBS builder returns success the
  extensions it has emitted are these. Device certificate: key usage, basic constraints
  with CA true and path length 1, and the authority key identifier (SHA-1 of the root
  key bytes) exactly when a root key is passed. Root certificate: key usage and basic
  constraints with CA true and path length 2. Alias certificate: key usage, extended key
  usage with client authentication, the authority key identifier (SHA-1 of the exported
  DevID public key) and the RIoT extension, and no basic constraints.
\<close>

theorem extension_composition:
  "(X509GetDeviceCertTBS env DERInitContext TbsData DevIdKeyPub RootKeyPub RootKeyPubLen = Some Tbs
      \<longrightarrow> extensions_block Tbs =
        Some ([keyUsage_extension (RIOT_X509_KEY_USAGE env), basicConstraints_extension 1] @
              (case RootKeyPub of
                 None \<Rightarrow> []
               | Some root \<Rightarrow>
                   [authorityKeyIdentifier_extension
                      (take 20 (array_of SHA1_DIGEST_LENGTH
                         (mbedtls_sha1_ret env (take RootKeyPubLen root))))]))) \<and>
   (X509GetRootCertTBS env DERInitContext TbsData RootKey = Some Tbs
      \<longrightarrow> extensions_block Tbs =
        Some [keyUsage_extension (RIOT_X509_KEY_USAGE env), basicConstraints_extension 2]) \<and>
   (X509GetAliasCertTBS env DERInitContext TbsData AliasKeyPub DevIdKeyPub Fwid = Some Tbs
      \<longrightarrow> (\<exists>enc exts.
            RiotCrypt_ExportEccPub env DevIdKeyPub (RIOT_COORDMAX env * 2 + 1) = Some enc \<and>
            exts = [keyUsage_extension (RIOT_X509_KEY_USAGE env),
                    extendedKeyUsage_clientAuth_extension,
                    authorityKeyIdentifier_extension
                      (take 20 (array_of SHA1_DIGEST_LENGTH (mbedtls_sha1_ret env enc))),
                    riot_extension (takeWhile (\<lambda>v. v \<noteq> - 1) (curveOID env)) enc Fwid] \<and>
            extensions_block Tbs = Some exts \<and>
            (\<forall>e\<in>set exts. \<forall>rest. e \<noteq> SequenceOrSet True (OID [2, 5, 29, 19] # rest))))"
proof (intro conjI impI)
  assume "X509GetDeviceCertTBS env DERInitContext TbsData DevIdKeyPub RootKeyPub RootKeyPubLen = Some Tbs"
  then have "X509GetDeviceCertTBS (unlimited env) DERInitContext TbsData DevIdKeyPub RootKeyPub
      RootKeyPubLen = Some Tbs"
    by (rule refines_Some [OF device_refines])
  with device_extensions [where env = env and TbsData = TbsData and DevIdKeyPub = DevIdKeyPub
      and RootKeyPub = RootKeyPub and RootKeyPubLen = RootKeyPubLen]
  show "extensions_block Tbs =
        Some ([keyUsage_extension (RIOT_X509_KEY_USAGE env), basicConstraints_extension 1] @
              (case RootKeyPub of
                 None \<Rightarrow> []
               | Some root \<Rightarrow>
                   [authorityKeyIdentifier_extension
                      (take 20 (array_of SHA1_DIGEST_LENGTH
                         (mbedtls_sha1_ret env (take RootKeyPubLen root))))]))"
    by simp
next
  assume "X509GetRootCertTBS env DERInitContext TbsData RootKey = Some Tbs"
  then have "X509GetRootCertTBS (unlimited env) DERInitContext TbsData RootKey = Some Tbs"
    by (rule refines_Some [OF root_refines])
  with root_extensions [where env = env and TbsData = TbsData and RootKeyPub = RootKey]
  show "extensions_block Tbs =
        Some [keyUsage_extension (RIOT_X509_KEY_USAGE env), basicConstraints_extension 2]"
    by simp
next
  assume "X509GetAliasCertTBS env DERInitContext TbsData AliasKeyPub DevIdKeyPub Fwid = Some Tbs"
  then have "X509GetAliasCertTBS (unlimited env) DERInitContext TbsData AliasKeyPub DevIdKeyPub Fwid
      = Some Tbs"
    by (rule refines_Some [OF alias_refines])
  with alias_extensions [where env = env and TbsData = TbsData and AliasKeyPub = AliasKeyPub
      and DevIdKeyPub = DevIdKeyPub and Fwid = Fwid]
  obtain enc where enc:
    "RiotCrypt_ExportEccPub env DevIdKeyPub (RIOT_COORDMAX env * 2 + 1) = Some enc"
    "extensions_block Tbs =
       Some [keyUsage_extension (RIOT_X509_KEY_USAGE env),
             extendedKeyUsage_clientAuth_extension,
             authorityKeyIdentifier_extension
               (take 20 (array_of SHA1_DIGEST_LENGTH (mbedtls_sha1_ret env enc))),
             riot_extension (takeWhile (\<lambda>v. v \<noteq> - 1) (curveOID env)) enc Fwid]"
    by (auto split: option.splits)
  have "\<forall>e\<in>set [keyUsage_extension (RIOT_X509_KEY_USAGE env),
             extendedKeyUsage_clientAuth_extension,
             authorityKeyIdentifier_extension
               (take 20 (array_of SHA1_DIGEST_LENGTH (mbedtls_sha1_ret env enc))),
             riot_extension (takeWhile (\<lambda>v. v \<noteq> - 1) (curveOID env)) enc Fwid].
          \<forall>rest. e \<noteq> SequenceOrSet True (OID [2, 5, 29, 19] # rest)"
    by (simp add: x509_extensions)
  with enc show "\<exists>enc exts.
            RiotCrypt_ExportEccPub env DevIdKeyPub (RIOT_COORDMAX env * 2 + 1) = Some enc \<and>
            exts = [keyUsage_extension (RIOT_X509_KEY_USAGE env),
                    extendedKeyUsage_clientAuth_extension,
                    authorityKeyIdentifier_extension
                      (take 20 (array_of SHA1_DIGEST_LENGTH (mbedtls_sha1_ret env enc))),
                    riot_extension (takeWhile (\<lambda>v. v \<noteq> - 1) (curveOID env)) enc Fwid] \<and>
            extensions_block Tbs = Some exts \<and>
            (\<forall>e\<in>set exts. \<forall>rest. e \<noteq> SequenceOrSet True (OID [2, 5, 29, 19] # rest))"
    by blast
qed

theorem extension_composition_witness:
  "X509GetDeviceCertTBS demo_derenc DERInitContext demo_tbs [7, 7] (Some [1, 2, 3]) 1 \<noteq> None \<and>
   extensions_block
     (the (X509GetDeviceCertTBS demo_derenc DERInitContext demo_tbs [7, 7] (Some [1, 2, 3]) 1)) =
     Some [keyUsage_extension 0x04, basicConstraints_extension 1,
           authorityKeyIdentifier_extension (1 # replicate 19 0)] \<and>
   X509GetRootCertTBS demo_derenc DERInitContext demo_tbs [7, 7] \<noteq> None \<and>
   extensions_block (the (X509GetRootCertTBS demo_derenc DERInitContext demo_tbs [7, 7])) =
     Some [keyUsage_extension 0x04, basicConstraints_extension 2] \<and>
   X509GetAliasCertTBS demo_derenc DERInitContext demo_tbs [7, 7] [1, 2, 3] [9] \<noteq> None \<and>
   extensions_block
     (the (X509GetAliasCertTBS demo_derenc DERInitContext demo_tbs [7, 7] [1, 2, 3] [9])) =
     Some [keyUsage_extension 0x04, extendedKeyUsage_clientAuth_extension,
           authorityKeyIdentifier_extension (1 # 2 # 3 # replicate 17 0),
           riot_extension [1, 2, 840, 10045, 3, 1, 7] [1, 2, 3] [9]]"
proof -
  obtain d r a where tbs:
    "X509GetDeviceCertTBS demo_derenc DERInitContext demo_tbs [7, 7] (Some [1, 2, 3]) 1 = Some d"
    "X509GetRootCertTBS demo_derenc DERInitContext demo_tbs [7, 7] = Some r"
    "X509GetAliasCertTBS demo_derenc DERInitContext demo_tbs [7, 7] [1, 2, 3] [9] = Some a"
    using demo_device_tbs demo_root_tbs demo_alias_tbs by blast
  have "extensions_block d =
     Some [keyUsage_extension 0x04, basicConstraints_extension 1,
           authorityKeyIdentifier_extension (1 # replicate 19 0)]"
    using tbs(1) extension_composition [where env = demo_derenc and TbsData = demo_tbs
        and DevIdKeyPub = "[7, 7]" and RootKeyPub = "Some [1, 2, 3]" and RootKeyPubLen = 1
        and Tbs = d]
    by (simp add: demo_derenc_def array_of_def SHA1_DIGEST_LENGTH_def)
  moreover have "extensions_block r = Some [keyUsage_extension 0x04, basicConstraints_extension 2]"
    using tbs(2) extension_composition [where env = demo_derenc and TbsData = demo_tbs
        and RootKey = "[7, 7]" and Tbs = r]
    by (simp add: demo_derenc_def)
  moreover have "extensions_block a =
     Some [keyUsage_extension 0x04, extendedKeyUsage_clientAuth_extension,
           authorityKeyIdentifier_extension (1 # 2 # 3 # replicate 17 0),
           riot_extension [1, 2, 840, 10045, 3, 1, 7] [1, 2, 3] [9]]"
    using tbs(3) extension_composition [where env = demo_derenc and TbsData = demo_tbs
        and AliasKeyPub = "[7, 7]" and DevIdKeyPub = "[1, 2, 3]" and Fwid = "[9]" and Tbs = a]
    by (simp add: demo_derenc_def array_of_def SHA1_DIGEST_LENGTH_def)
  ultimately show ?thesis using tbs by simp
qed

section \<open>The subject common name of the alias certificate\<close>

text \<open>
  Claim C9. When \<^verbatim>\<open>X509GetAliasCertTBS\<close> returns success on a fresh builder context: if
  the subject common name passed in starts with \<open>*\<close> (in particular if it is \<open>*\<close>), and
  \<^verbatim>\<open>Base64Encode\<close> wrote the base64 text of the first 16 bytes of the SHA-256 digest of
  the exported DevID public key followed by one terminating character, the common name
  in the subject of the TBS is that base64 text; if it does not start with \<open>*\<close>, the common
  name in the subject of the TBS is the one passed in.
\<close>

theorem alias_subject_common_name:
  assumes "X509GetAliasCertTBS env DERInitContext TbsData AliasKeyPub DevIdKeyPub Fwid = Some Tbs"
  shows "(take 1 (SubjectCommon TbsData) = ''*'' \<longrightarrow>
            (\<forall>enc b64 t.
               RiotCrypt_ExportEccPub env DevIdKeyPub (RIOT_COORDMAX env * 2 + 1) = Some enc \<longrightarrow>
               Base64Encode env
                 (take 16 (array_of RIOT_DIGEST_LENGTH (x509_RiotCrypt_Hash env enc))) 64
                 = Some (b64 @ [t]) \<longrightarrow>
               CHR 0x00 \<notin> set b64 \<longrightarrow>
               subject_common_name Tbs = Some b64)) \<and>
         (take 1 (SubjectCommon TbsData) \<noteq> ''*'' \<longrightarrow>
            subject_common_name Tbs = Some (SubjectCommon TbsData))"
proof -
  have "X509GetAliasCertTBS (unlimited env) DERInitContext TbsData AliasKeyPub DevIdKeyPub Fwid
      = Some Tbs"
    using assms by (rule refines_Some [OF alias_refines])
  with alias_subject [where env = env and TbsData = TbsData and AliasKeyPub = AliasKeyPub
      and DevIdKeyPub = DevIdKeyPub and Fwid = Fwid]
  have cn: "subject_common_name Tbs =
          (if take 1 (SubjectCommon TbsData) = ''*''
           then (case RiotCrypt_ExportEccPub env DevIdKeyPub (RIOT_COORDMAX env * 2 + 1) of
                   None \<Rightarrow> None
                 | Some enc \<Rightarrow> map_option guid_string (GenerateGuidFromSeed env 64 enc))
           else Some (SubjectCommon TbsData))"
    by simp
  have guid: "guid_string (b64 @ [t]) = b64" if "CHR 0x00 \<notin> set b64" for b64 t
  proof -
    have "(b64 @ [t])[length (b64 @ [t]) - 1 := CHR 0x00] = b64 @ [CHR 0x00]" by simp
    moreover have "takeWhile (\<lambda>c. c \<noteq> CHR 0x00) (b64 @ [CHR 0x00]) = b64"
      using that by (induction b64) auto
    ultimately show ?thesis by (simp only: guid_string_def)
  qed
  show ?thesis
    using cn guid by (auto simp add: GenerateGuidFromSeed_def)
qed

theorem alias_subject_common_name_witness:
  "X509GetAliasCertTBS demo_derenc DERInitContext demo_tbs [7, 7] [1, 2, 3] [9] \<noteq> None \<and>
   take 1 (SubjectCommon demo_tbs) = ''*'' \<and>
   subject_common_name
     (the (X509GetAliasCertTBS demo_derenc DERInitContext demo_tbs [7, 7] [1, 2, 3] [9])) =
     Some ''QQQQQQQQQQQQQQQQ'' \<and>
   X509GetAliasCertTBS demo_derenc DERInitContext (demo_tbs\<lparr>SubjectCommon := ''agent''\<rparr>)
     [7, 7] [1, 2, 3] [9] \<noteq> None \<and>
   subject_common_name
     (the (X509GetAliasCertTBS demo_derenc DERInitContext (demo_tbs\<lparr>SubjectCommon := ''agent''\<rparr>)
        [7, 7] [1, 2, 3] [9])) = Some ''agent''"
proof -
  have named: "X509GetAliasCertTBS demo_derenc DERInitContext (demo_tbs\<lparr>SubjectCommon := ''agent''\<rparr>)
     [7, 7] [1, 2, 3] [9] \<noteq> None"
    by (subst demo_derenc_unlimited)
       (simp add: X509GetAliasCertTBS_def x509_run demo_derenc_def demo_tbs_def)
  obtain a b where tbs:
    "X509GetAliasCertTBS demo_derenc DERInitContext demo_tbs [7, 7] [1, 2, 3] [9] = Some a"
    "X509GetAliasCertTBS demo_derenc DERInitContext (demo_tbs\<lparr>SubjectCommon := ''agent''\<rparr>)
       [7, 7] [1, 2, 3] [9] = Some b"
    using demo_alias_tbs named by blast
  have star: "take 1 (SubjectCommon demo_tbs) = ''*''" by (simp add: demo_tbs_def)
  have export: "RiotCrypt_ExportEccPub demo_derenc [1, 2, 3] (RIOT_COORDMAX demo_derenc * 2 + 1)
      = Some [1, 2, 3]"
    by (simp add: demo_derenc_def)
  have b64: "Base64Encode demo_derenc
      (take 16 (array_of RIOT_DIGEST_LENGTH (x509_RiotCrypt_Hash demo_derenc [1, 2, 3]))) 64
      = Some (''QQQQQQQQQQQQQQQQ'' @ [CHR 0x00])"
    by code_simp
  have nul: "CHR 0x00 \<notin> set ''QQQQQQQQQQQQQQQQ''" by simp
  have "subject_common_name a = Some ''QQQQQQQQQQQQQQQQ''"
    using alias_subject_common_name [OF tbs(1)] star export b64 nul by blast
  moreover have "subject_common_name b = Some ''agent''"
    using alias_subject_common_name [OF tbs(2)] by (simp add: demo_tbs_def)
  ultimately show ?thesis using tbs star by simp
qed

section \<open>The format of the DFU string\<close>

text \<open>
  Claim C10. When the pages between \<^verbatim>\<open>AgentHdr\<close> and \<^verbatim>\<open>IssuedCerts\<close> are at most 990, so
  that the text fits \<^verbatim>\<open>dfuString\<close>, \<^verbatim>\<open>BarnacleGetDfuStr\<close> returns
  \<open>@Barnacle /0x\<close>, the base address in eight hexadecimal digits and \<open>/\<close>, then one group
  \<open>NN*004Kf,\<close> for each number of a list whose members are between 1 and 99, are printed
  with two digits and add up to the number of pages, then \<open>01*04Ka\<close> when the write-lock
  flag is set in \<^verbatim>\<open>IssuedCerts.info.flags\<close> and \<open>01*04Kg\<close> otherwise.
\<close>

theorem dfu_string_format:
  assumes "unat ((addr_IssuedCerts plat - addr_AgentHdr plat) div 4096) \<le> 990"
  shows "\<exists>ns. BarnacleGetDfuStr plat s =
           Some (''@Barnacle /0x'' @ fmt_08x (addr_AgentHdr plat) @ ''/'' @
                 concat (map (\<lambda>n. fmt_02u n @ ''*004Kf,'') ns) @
                 ''01*04K'' @
                 [if ic_flags (IssuedCerts s) AND BARNACLE_ISSUEDFLAG_WRITELOCK plat \<noteq> 0
                  then CHR ''a'' else CHR ''g'']) \<and>
         (\<forall>n\<in>set ns. 0 < n \<and> n \<le> 99 \<and> length (fmt_02u n) = 2) \<and>
         sum_list ns = unat ((addr_IssuedCerts plat - addr_AgentHdr plat) div 4096) \<and>
         length (fmt_08x (addr_AgentHdr plat)) = 8"
proof -
  define pages where "pages = unat ((addr_IssuedCerts plat - addr_AgentHdr plat) div 4096)"
  define c1 where "c1 = ''@Barnacle /0x'' @ fmt_08x (addr_AgentHdr plat) @ ''/''"
  have area: "sint ((addr_IssuedCerts plat - addr_AgentHdr plat) div 4096) = int pages"
    by (simp only: pages_def sint_pages)
  have len1: "length c1 = 22" by (simp add: c1_def fmt_08x_def)
  have first: "sprintf_dfu [] c1 = Some c1"
    by (simp add: sprintf_dfu_def sizeof_dfuString_def len1)
  have steps: "nat ((int pages + 98) div 99) \<le> 10"
    using assms unfolding pages_def [symmetric] by linarith
  then have "length c1 + 9 * nat ((int pages + 98) div 99) + 1 \<le> 128"
    by (simp add: len1)
  from dfu_loop_groups [OF _ this] obtain ns where ns:
    "dfu_loop (int pages) c1 = Some (c1 @ concat (map (\<lambda>n. fmt_02u n @ ''*004Kf,'') ns))"
    "\<forall>n\<in>set ns. 0 < n \<and> n \<le> 99" "int (sum_list ns) = int pages"
    "length ns = nat ((int pages + 98) div 99)"
    by auto
  define c2 where "c2 = c1 @ concat (map (\<lambda>n. fmt_02u n @ ''*004Kf,'') ns)"
  have two: "\<forall>n\<in>set ns. length (fmt_02u n) = 2"
    using ns(2) by (auto intro: length_fmt_02u)
  then have "length (concat (map (\<lambda>n. fmt_02u n @ ''*004Kf,'') ns)) = 9 * length ns"
    by (induction ns) simp_all
  then have len2: "length c2 \<le> 112"
    using steps ns(4) by (simp add: c2_def len1)
  define tail where "tail = ''01*04K'' @
      [if ic_flags (IssuedCerts s) AND BARNACLE_ISSUEDFLAG_WRITELOCK plat \<noteq> 0
       then CHR ''a'' else CHR ''g'']"
  have last: "sprintf_dfu c2 tail = Some (c2 @ tail)"
    using len2 by (simp add: sprintf_dfu_def sizeof_dfuString_def tail_def)
  have "BarnacleGetDfuStr plat s =
      (case sprintf_dfu [] c1 of None \<Rightarrow> None
       | Some x \<Rightarrow> (case dfu_loop (int pages) x of None \<Rightarrow> None
                     | Some y \<Rightarrow> sprintf_dfu y tail))"
    unfolding BarnacleGetDfuStr_def Let_def area c1_def tail_def by (rule refl)
  also have "\<dots> = Some (c2 @ tail)"
    by (simp only: first ns(1) c2_def [symmetric] last option.case)
  finally have "BarnacleGetDfuStr plat s = Some (c2 @ tail)" .
  then have "BarnacleGetDfuStr plat s =
           Some (''@Barnacle /0x'' @ fmt_08x (addr_AgentHdr plat) @ ''/'' @
                 concat (map (\<lambda>n. fmt_02u n @ ''*004Kf,'') ns) @
                 ''01*04K'' @
                 [if ic_flags (IssuedCerts s) AND BARNACLE_ISSUEDFLAG_WRITELOCK plat \<noteq> 0
                  then CHR ''a'' else CHR ''g''])"
    by (simp add: c2_def c1_def tail_def)
  moreover have "\<forall>n\<in>set ns. 0 < n \<and> n \<le> 99 \<and> length (fmt_02u n) = 2"
    using ns(2) two by blast
  moreover have "sum_list ns = pages" using ns(3) by simp
  moreover have "length (fmt_08x (addr_AgentHdr plat)) = 8" by (simp add: fmt_08x_def)
  ultimately show ?thesis unfolding pages_def by blast
qed

theorem dfu_string_format_witness:
  "unat ((addr_IssuedCerts demo_platform - addr_AgentHdr demo_platform) div 4096) \<le> 990 \<and>
   BarnacleGetDfuStr demo_platform demo_state =
     Some ''@Barnacle /0x08020000/99*004Kf,99*004Kf,24*004Kf,01*04Kg'' \<and>
   (\<exists>ns. sum_list ns =
           unat ((addr_IssuedCerts demo_platform - addr_AgentHdr demo_platform) div 4096) \<and>
         BarnacleGetDfuStr demo_platform demo_state =
           Some (''@Barnacle /0x'' @ fmt_08x (addr_AgentHdr demo_platform) @ ''/'' @
                 concat (map (\<lambda>n. fmt_02u n @ ''*004Kf,'') ns) @ ''01*04Kg''))"
proof -
  have h: "unat ((addr_IssuedCerts demo_platform - addr_AgentHdr demo_platform) div 4096) \<le> 990"
    by (simp add: demo_platform_def unat_div)
  have run: "BarnacleGetDfuStr demo_platform demo_state =
     Some ''@Barnacle /0x08020000/99*004Kf,99*004Kf,24*004Kf,01*04Kg''"
    by code_simp
  have unlocked: "ic_flags (IssuedCerts demo_state) AND BARNACLE_ISSUEDFLAG_WRITELOCK demo_platform = 0"
    by (simp add: demo_defs)
  from dfu_string_format [OF h, of demo_state] obtain ns where
    "BarnacleGetDfuStr demo_platform demo_state =
       Some (''@Barnacle /0x'' @ fmt_08x (addr_AgentHdr demo_platform) @ ''/'' @
             concat (map (\<lambda>n. fmt_02u n @ ''*004Kf,'') ns) @ ''01*04K'' @
             [if ic_flags (IssuedCerts demo_state) AND BARNACLE_ISSUEDFLAG_WRITELOCK demo_platform \<noteq> 0
              then CHR ''a'' else CHR ''g''])"
    "sum_list ns = unat ((addr_IssuedCerts demo_platform - addr_AgentHdr demo_platform) div 4096)"
    by blast
  then have "\<exists>ns. sum_list ns =
           unat ((addr_IssuedCerts demo_platform - addr_AgentHdr demo_platform) div 4096) \<and>
         BarnacleGetDfuStr demo_platform demo_state =
           Some (''@Barnacle /0x'' @ fmt_08x (addr_AgentHdr demo_platform) @ ''/'' @
                 concat (map (\<lambda>n. fmt_02u n @ ''*004Kf,'') ns) @ ''01*04Kg'')"
    by (simp only: unlocked) auto
  with h run show ?thesis by blast
qed

end
